theory Spec2Isabelle
  imports Complex_Main "HOL-Library.Sublist"
begin

section \<open>Python values\<close>

text \<open>
  A Python \<open>str\<close> is a sequence of Unicode code points, so it is modelled as a list of
  natural numbers; \<open>asc\<close> turns an ASCII literal into such a list.  A Python float is a
  finite double, which is a real; infinities and NaN are outside the model.
\<close>

type_synonym pystr = "nat list"

text \<open>An instant (a \<open>datetime\<close>) is an integer.\<close>

type_synonym timestamp = int

definition asc :: "string \<Rightarrow> pystr" where
  "asc s = map of_char s"

text \<open>
  The value stored under a price key of a scraped record: a number (\<open>int\<close>, \<open>float\<close> or
  \<open>bool\<close>, by its numeric value), a string, or \<open>None\<close>.
\<close>

datatype pyval = PNum real | PStr pystr | PNone

datatype py_error = TypeError | ValueError | DatabaseError

text \<open>
  Character classes, case mapping, float parsing and \<open>difflib\<close> belong to the Python
  runtime, not to the repository.  They are parameters of the model:
  \<^item> \<open>isspace\<close>, \<open>isword\<close>, \<open>isdigit\<close>: the classes \<open>\s\<close>, \<open>\w\<close>, \<open>\d\<close> of \<open>re\<close>
    (\<open>\s\<close> is also what \<open>str.strip\<close> and \<open>str.split\<close> remove);
  \<^item> \<open>str_lower\<close>, \<open>str_upper\<close>: \<open>str.lower\<close>, \<open>str.upper\<close>;
  \<^item> \<open>ci_eq\<close>: equality of two characters under \<open>re.IGNORECASE\<close>;
  \<^item> \<open>str_to_float\<close>: \<open>float(s)\<close> for a string, \<open>None\<close> where it raises \<open>ValueError\<close>;
  \<^item> \<open>seq_ratio\<close>: \<open>SequenceMatcher(None, a, b).ratio()\<close>.
\<close>

record pylib =
  isspace :: "nat \<Rightarrow> bool"
  isword :: "nat \<Rightarrow> bool"
  isdigit :: "nat \<Rightarrow> bool"
  str_lower :: "pystr \<Rightarrow> pystr"
  str_upper :: "pystr \<Rightarrow> pystr"
  ci_eq :: "nat \<Rightarrow> nat \<Rightarrow> bool"
  str_to_float :: "pystr \<Rightarrow> real option"
  seq_ratio :: "pystr \<Rightarrow> pystr \<Rightarrow> real"

text \<open>\<open>float(v)\<close>: the identity on numbers, parsing on strings, \<open>TypeError\<close> on \<open>None\<close>.\<close>

fun py_float :: "pylib \<Rightarrow> pyval \<Rightarrow> py_error + real" where
  "py_float L (PNum x) = Inr x"
| "py_float L (PStr s) = (case str_to_float L s of None \<Rightarrow> Inl ValueError | Some x \<Rightarrow> Inr x)"
| "py_float L PNone = Inl TypeError"

section \<open>Float arithmetic\<close>

text \<open>
  A float operation of Python returns the double nearest to the exact result, a tie going
  to the even mantissa (IEEE 754, binary64), and a float literal is the double nearest to
  the decimal written.  The matcher adds floats and compares the sums with thresholds, so
  there the operations are modelled with their rounding.  The pricing and the quality
  score compare no result of float arithmetic with anything, and are modelled with the
  exact operations.
\<close>

text \<open>The nearest integer, a tie going to the even one.\<close>

definition round_half_even :: "real \<Rightarrow> int" where
  "round_half_even r =
     (let f = \<lfloor>r\<rfloor>; d = r - of_int f
      in if d < 1 / 2 then f
         else if 1 / 2 < d then f + 1
         else if even f then f else f + 1)"

text \<open>
  The mantissa and the unit of a positive number: \<open>m * u\<close> stays the number while \<open>m\<close> is
  doubled or halved into \<open>[2^52, 2^53)\<close>.  The unit of a double is at least \<open>2^-1074\<close>, the
  unit of the subnormal numbers, so the doubling stops after 1074 steps.
\<close>

fun scale_mantissa :: "nat \<Rightarrow> real \<Rightarrow> real \<Rightarrow> real \<times> real" where
  "scale_mantissa 0 m u = (m, u)"
| "scale_mantissa (Suc n) m u =
     (if m < 2 ^ 52 then scale_mantissa n (2 * m) (u / 2)
      else if 2 ^ 53 \<le> m then scale_mantissa n (m / 2) (2 * u)
      else (m, u))"

text \<open>
  The double nearest to a real: the mantissa rounded to an integer, times the unit.  (A
  result of magnitude \<open>2^1024\<close> or more is an infinity in Python, and outside the model.)
\<close>

definition to_double :: "real \<Rightarrow> real" where
  "to_double x =
     (if x = 0 then 0
      else case scale_mantissa 1074 \<bar>x\<bar> 1 of
             (m, u) \<Rightarrow> sgn x * of_int (round_half_even m) * u)"

text \<open>\<open>x + y\<close>, \<open>x - y\<close> and \<open>x / y\<close> on floats.\<close>

definition float_add :: "real \<Rightarrow> real \<Rightarrow> real" where
  "float_add x y = to_double (x + y)"

definition float_sub :: "real \<Rightarrow> real \<Rightarrow> real" where
  "float_sub x y = to_double (x - y)"

definition float_div :: "real \<Rightarrow> real \<Rightarrow> real" where
  "float_div x y = to_double (x / y)"

section \<open>Raw scraped records\<close>

text \<open>
  A scraped record is a Python dict.  A key that is absent is \<open>None\<close> here; the text
  keys, when present, hold a \<open>str\<close>, and \<open>availability\<close> a \<open>bool\<close>.
\<close>

record raw_product =
  rp_platform :: "pystr option"
  rp_product_id :: "pystr option"
  rp_name :: "pystr option"
  rp_price :: "pyval option"
  rp_original_price :: "pyval option"
  rp_url :: "pystr option"
  rp_image_url :: "pystr option"
  rp_brand :: "pystr option"
  rp_description :: "pystr option"
  rp_availability :: "bool option"

text \<open>\<open>d.get(key, default)\<close>.\<close>

definition dict_get :: "'a option \<Rightarrow> 'a \<Rightarrow> 'a" where
  "dict_get field dflt = (case field of None \<Rightarrow> dflt | Some v \<Rightarrow> v)"

section \<open>Pricing (\<open>ProductETL._extract_pricing\<close>)\<close>

record price_data =
  pd_current_price :: real
  pd_original_price :: real
  pd_discount :: real

definition extract_pricing :: "pylib \<Rightarrow> raw_product \<Rightarrow> py_error + price_data" where
  "extract_pricing L raw =
     (case py_float L (dict_get (rp_price raw) (PNum 0)) of
        Inl e \<Rightarrow> Inl e
      | Inr current_price \<Rightarrow>
          (case py_float L (dict_get (rp_original_price raw) (PNum current_price)) of
             Inl e \<Rightarrow> Inl e
           | Inr original_price \<Rightarrow>
               Inr \<lparr> pd_current_price = current_price,
                     pd_original_price = original_price,
                     pd_discount =
                       (if original_price > current_price \<and> original_price > 0
                        then ((original_price - current_price) / original_price) * 100
                        else 0) \<rparr>))"

section \<open>Text helpers of the standard library\<close>

text \<open>\<open>s.strip()\<close>: whitespace removed at both ends.\<close>

definition strip :: "pylib \<Rightarrow> pystr \<Rightarrow> pystr" where
  "strip L s = rev (dropWhile (isspace L) (rev (dropWhile (isspace L) s)))"

text \<open>
  \<open>re.sub(r'\s+', ' ', s)\<close>: every maximal run of whitespace becomes one space (code
  point 32).  The flag says whether the previous character was whitespace.
\<close>

fun collapse_from :: "pylib \<Rightarrow> bool \<Rightarrow> pystr \<Rightarrow> pystr" where
  "collapse_from L in_run [] = []"
| "collapse_from L in_run (c # cs) =
     (if isspace L c
      then (if in_run then collapse_from L True cs else 32 # collapse_from L True cs)
      else c # collapse_from L False cs)"

definition collapse_ws :: "pylib \<Rightarrow> pystr \<Rightarrow> pystr" where
  "collapse_ws L s = collapse_from L False s"

text \<open>
  \<open>s.replace(old, new)\<close>: the occurrences of \<open>old\<close> are replaced from left to right
  without overlap.  The counter is the number of characters of the current occurrence
  still to be skipped.
\<close>

fun replace_from :: "pystr \<Rightarrow> pystr \<Rightarrow> nat \<Rightarrow> pystr \<Rightarrow> pystr" where
  "replace_from old new skip [] = []"
| "replace_from old new (Suc k) (c # cs) = replace_from old new k cs"
| "replace_from old new 0 (c # cs) =
     (if prefix old (c # cs) then new @ replace_from old new (length old - 1) cs
      else c # replace_from old new 0 cs)"

definition str_replace :: "pystr \<Rightarrow> pystr \<Rightarrow> pystr \<Rightarrow> pystr" where
  "str_replace old new s =
     (if old = [] then new @ concat (map (\<lambda>c. c # new) s) else replace_from old new 0 s)"

text \<open>\<open>sub in s\<close> for two strings: \<open>sub\<close> occurs in \<open>s\<close> as a contiguous block.\<close>

definition py_in :: "pystr \<Rightarrow> pystr \<Rightarrow> bool" where
  "py_in sub s = sublist sub s"

text \<open>
  \<open>s.title()\<close> on ASCII text (the source applies it to the constants of its brand list
  only): the first letter of every run of letters in upper case, the others in lower
  case.  The flag says whether the previous character was a letter.
\<close>

fun title_from :: "bool \<Rightarrow> pystr \<Rightarrow> pystr" where
  "title_from prev_cased [] = []"
| "title_from prev_cased (c # cs) =
     (if 65 \<le> c \<and> c \<le> 90
      then (if prev_cased then c + 32 else c) # title_from True cs
      else if 97 \<le> c \<and> c \<le> 122
      then (if prev_cased then c else c - 32) # title_from True cs
      else c # title_from False cs)"

definition str_title :: "pystr \<Rightarrow> pystr" where
  "str_title s = title_from False s"

section \<open>Cleaning and field extraction (\<open>ProductETL\<close>)\<close>

text \<open>
  \<open>_clean_text\<close>.  The second substitution keeps word characters, whitespace, the range
  U+4E00..U+9FFF and the characters \<open>- ( ) [ ] /\<close>.
\<close>

definition clean_text :: "pylib \<Rightarrow> pystr \<Rightarrow> pystr" where
  "clean_text L text =
     (if text = [] then []
      else take 500
             (filter (\<lambda>c. isword L c \<or> isspace L c \<or> (19968 \<le> c \<and> c \<le> 40959)
                           \<or> c \<in> set (asc ''-()[]/''))
                (strip L (collapse_ws L text))))"

definition noise_words :: "pystr list" where
  "noise_words =
     [[30340], [12304], [12305], asc ''('', asc '')'', asc ''['', asc '']'',
      [38480, 26178], [29305, 20729], [20778, 24800]]"

definition normalize_name :: "pylib \<Rightarrow> pystr \<Rightarrow> pystr" where
  "normalize_name L name =
     strip L (collapse_ws L
       (fold (\<lambda>word normalized. str_replace word [32] normalized) noise_words
          (str_lower L name)))"

record category =
  cat_id :: int
  cat_name :: pystr
  cat_name_zh :: "pystr option"
  cat_parent_id :: "int option"
  cat_created_at :: "timestamp option"

definition category_keywords :: "(pystr \<times> pystr list) list" where
  "category_keywords =
     [(asc ''Electronics'',
        [[31558, 38651], [38651, 33126], [25163, 27231], asc ''iphone'', asc ''ipad'',
         [24179, 26495], [32819, 27231], [30456, 27231], [34722, 24149]]),
      (asc ''Fashion'',
        [[36939, 21205, 38795], [38795], [21253, 21253], [25163, 37686], [34915, 26381],
         [35122, 23376], [29275, 20180, 35122], [22806, 22871]]),
      (asc ''Home'',
        [[21654, 21857, 27231], [21560, 22645, 22120], [24202, 22666], [39184, 20855],
         [24282, 20855], [23478, 20855], [29128, 20855]]),
      (asc ''Gaming'',
        [asc ''switch'', asc ''ps5'', asc ''xbox'', [36938, 25138], [25163, 25226],
         [37749, 30436], [28369, 40736]]),
      (asc ''Beauty'',
        [[38754, 33180], [38450, 26348], [21475, 32005], [39321, 27700], [21270, 22941],
         [20445, 39178], [35703, 33178]]),
      (asc ''Sports'',
        [[29788, 29640], [21854, 37428], [36305, 38795], [31811, 29699], [36939, 21205],
         [20581, 36523]]),
      (asc ''Books'',
        [[23567, 35498], [39135, 35676], [26360], [28459, 30059], [38620, 35468]]),
      (asc ''Food'',
        [[38646, 39135], [33590, 33865], [34562, 34588], [22533, 26524], [21654, 21857],
         [33590]])]"

text \<open>
  \<open>_categorize_product\<close>: the first category, in the order of the table, one of whose
  keywords occurs in the lower-cased name; its row is looked up in the category cache
  (and may be missing there).
\<close>

definition categorize_product :: "pylib \<Rightarrow> (pystr \<rightharpoonup> category) \<Rightarrow> pystr \<Rightarrow> category option" where
  "categorize_product L category_cache name =
     (let name_lower = str_lower L name in
      case find (\<lambda>(category_name, keywords). \<exists>keyword \<in> set keywords. py_in keyword name_lower)
             category_keywords of
        None \<Rightarrow> None
      | Some (category_name, keywords) \<Rightarrow> category_cache category_name)"

definition brands :: "pystr list" where
  "brands = map asc [''APPLE'', ''SAMSUNG'', ''ASUS'', ''ACER'', ''MSI'', ''LENOVO'', ''HP'',
                     ''DELL'', ''SONY'', ''LG'', ''NIKE'', ''ADIDAS'']"

text \<open>
  The pattern \<open>iPhone\s*(\d+\s*\w*)\<close> under \<open>re.IGNORECASE\<close>, tried at the head of a
  string: the six letters, whitespace, then group 1, which is a non-empty run of digits,
  a run of whitespace and a run of word characters, each as long as possible.
\<close>

definition iphone_match_here :: "pylib \<Rightarrow> pystr \<Rightarrow> pystr option" where
  "iphone_match_here L s =
     (if 6 \<le> length s \<and> list_all2 (ci_eq L) (asc ''iPhone'') (take 6 s)
      then (let r1 = dropWhile (isspace L) (drop 6 s);
                digits = takeWhile (isdigit L) r1;
                r2 = dropWhile (isdigit L) r1;
                spaces = takeWhile (isspace L) r2;
                r3 = dropWhile (isspace L) r2;
                word = takeWhile (isword L) r3
            in if digits = [] then None else Some (digits @ spaces @ word))
      else None)"

text \<open>\<open>re.search\<close>: the match at the leftmost position that has one.\<close>

fun iphone_search :: "pylib \<Rightarrow> pystr \<Rightarrow> pystr option" where
  "iphone_search L [] = None"
| "iphone_search L (c # cs) =
     (case iphone_match_here L (c # cs) of
        Some g \<Rightarrow> Some g
      | None \<Rightarrow> iphone_search L cs)"

definition extract_brand_model :: "pylib \<Rightarrow> pystr \<Rightarrow> pystr \<times> pystr" where
  "extract_brand_model L name =
     (let name_upper = str_upper L name;
          brand = (case find (\<lambda>b. py_in b name_upper) brands of
                     None \<Rightarrow> []
                   | Some b \<Rightarrow> str_title b);
          model = (if py_in (asc ''iPhone'') name
                   then (case iphone_search L name of
                           None \<Rightarrow> []
                         | Some g \<Rightarrow> strip L g)
                   else [])
      in (brand, model))"

text \<open>
  \<open>round(x, 2)\<close>.  On the scores \<open>k/6\<close> no tie occurs, so the rounding mode does not
  matter.
\<close>

definition round2 :: "real \<Rightarrow> real" where
  "round2 x = real_of_int (round (x * 100)) / 100"

text \<open>\<open>v > 0\<close> for a dict value: a string or \<open>None\<close> against an \<open>int\<close> raises \<open>TypeError\<close>.\<close>

fun py_gt_zero :: "pyval \<Rightarrow> py_error + bool" where
  "py_gt_zero (PNum x) = Inr (x > 0)"
| "py_gt_zero (PStr s) = Inl TypeError"
| "py_gt_zero PNone = Inl TypeError"

text \<open>\<open>bool(d.get(key))\<close> for a text key: present and not empty.\<close>

definition truthy :: "pystr option \<Rightarrow> bool" where
  "truthy field = (case field of None \<Rightarrow> False | Some s \<Rightarrow> s \<noteq> [])"

definition calculate_quality_score :: "raw_product \<Rightarrow> py_error + real" where
  "calculate_quality_score raw =
     (let total_checks = 6 :: real;
          s1 = (if truthy (rp_name raw) \<and> length (dict_get (rp_name raw) []) > 5
                then 1 / total_checks else 0)
      in case py_gt_zero (dict_get (rp_price raw) (PNum 0)) of
           Inl e \<Rightarrow> Inl e
         | Inr positive \<Rightarrow>
             (let s2 = s1 + (if positive then 1 / total_checks else 0);
                  s3 = s2 + (if truthy (rp_url raw) then 1 / total_checks else 0);
                  s4 = s3 + (if truthy (rp_image_url raw) then 1 / total_checks else 0);
                  s5 = s4 + (if truthy (rp_brand raw) then 1 / total_checks else 0);
                  s6 = s5 + (if truthy (rp_description raw) then 1 / total_checks else 0)
              in Inr (round2 s6)))"

section \<open>The database (\<open>database/models.py\<close>)\<close>

text \<open>
  One record per table.  A nullable column is an option; an instant is an integer.  The
  \<open>id\<close> of a price-history or match row is \<open>None\<close> until the row is flushed.  Columns
  that only ever hold the ASCII constants of the source are HOL strings.  The column
  \<open>platforms_scraped\<close> holds the \<open>str\<close> of a list of names; the list itself stands for
  it here.
\<close>

record platform =
  pl_id :: int
  pl_name :: pystr
  pl_display_name :: pystr
  pl_base_url :: pystr
  pl_is_active :: "bool option"
  pl_created_at :: "timestamp option"

record product =
  p_id :: int
  p_name :: pystr
  p_normalized_name :: pystr
  p_description :: "pystr option"
  p_brand :: "pystr option"
  p_model :: "pystr option"
  p_platform_id :: int
  p_platform_product_id :: pystr
  p_url :: "pystr option"
  p_image_url :: "pystr option"
  p_category_id :: "int option"
  p_current_price :: "real option"
  p_original_price :: "real option"
  p_discount_percentage :: "real option"
  p_currency :: "string option"
  p_is_available :: "bool option"
  p_stock_status :: "pystr option"
  p_data_quality_score :: "real option"
  p_last_scraped :: "timestamp option"
  p_scrape_count :: "int option"
  p_created_at :: "timestamp option"
  p_updated_at :: "timestamp option"

record price_history =
  ph_id :: "int option"
  ph_product_id :: int
  ph_platform_id :: int
  ph_price :: real
  ph_original_price :: "real option"
  ph_discount_percentage :: "real option"
  ph_currency :: "string option"
  ph_availability :: "bool option"
  ph_stock_status :: "pystr option"
  ph_promotional_tag :: "pystr option"
  ph_scraped_at :: "timestamp option"
  ph_scrape_session_id :: "string option"

record product_match =
  pm_id :: "int option"
  pm_product_a_id :: int
  pm_product_b_id :: int
  pm_similarity_score :: real
  pm_match_type :: "string option"
  pm_match_algorithm :: "string option"
  pm_is_verified :: "bool option"
  pm_is_active :: "bool option"
  pm_created_at :: "timestamp option"

record scrape_session =
  ss_id :: int
  ss_session_id :: string
  ss_query :: "pystr option"
  ss_platforms_scraped :: "pystr list"
  ss_products_found :: "int option"
  ss_success_rate :: "real option"
  ss_started_at :: "timestamp option"
  ss_completed_at :: "timestamp option"
  ss_duration_seconds :: "real option"
  ss_status :: "string option"
  ss_error_message :: "pystr option"
  ss_created_at :: "timestamp option"

text \<open>
  The store as one SQLAlchemy session sees it: the rows of each table in insertion
  order, and the objects added to the session and not yet flushed.  The session factory
  of \<open>database/connection.py\<close> sets \<open>autoflush=False\<close>, so a query reads the tables only
  and never the pending objects.
\<close>

record db =
  platforms :: "platform list"
  categories :: "category list"
  products :: "product list"
  price_histories :: "price_history list"
  product_matches :: "product_match list"
  scrape_sessions :: "scrape_session list"
  pending_history :: "price_history list"
  pending_matches :: "product_match list"

text \<open>An integer primary key: the next value after the largest one in use.\<close>

definition next_id :: "int list \<Rightarrow> int" where
  "next_id ids = fold max ids 0 + 1"

text \<open>A column default applies when the attribute was left unset.\<close>

definition col_default :: "'a option \<Rightarrow> 'a \<Rightarrow> 'a option" where
  "col_default field dflt = (case field of None \<Rightarrow> Some dflt | Some v \<Rightarrow> Some v)"

fun insert_history :: "price_history list \<Rightarrow> price_history list \<Rightarrow> price_history list" where
  "insert_history table [] = table"
| "insert_history table (h # hs) =
     insert_history
       (table @ [h\<lparr> ph_id := Some (next_id (List.map_filter ph_id table)),
                    ph_currency := col_default (ph_currency h) ''TWD'' \<rparr>]) hs"

fun insert_matches :: "timestamp \<Rightarrow> product_match list \<Rightarrow> product_match list \<Rightarrow> product_match list" where
  "insert_matches now table [] = table"
| "insert_matches now table (m # ms) =
     insert_matches now
       (table @ [m\<lparr> pm_id := Some (next_id (List.map_filter pm_id table)),
                    pm_is_verified := col_default (pm_is_verified m) False,
                    pm_is_active := col_default (pm_is_active m) True,
                    pm_created_at := col_default (pm_created_at m) now \<rparr>]) ms"

text \<open>\<open>db.flush()\<close>: every pending object is inserted, in the order it was added.\<close>

definition flush :: "timestamp \<Rightarrow> db \<Rightarrow> db" where
  "flush now d =
     d\<lparr> price_histories := insert_history (price_histories d) (pending_history d),
        product_matches := insert_matches now (product_matches d) (pending_matches d),
        pending_history := [],
        pending_matches := [] \<rparr>"

text \<open>\<open>db.commit()\<close> flushes and ends the transaction.\<close>

definition commit :: "timestamp \<Rightarrow> db \<Rightarrow> db" where
  "commit now d = flush now d"

text \<open>A new session on a store: nothing is pending.\<close>

definition open_session :: "db \<Rightarrow> db" where
  "open_session d = d\<lparr> pending_history := [], pending_matches := [] \<rparr>"

text \<open>A loaded row is one Python object: an assignment to it changes the row in place.\<close>

fun update_first :: "('a \<Rightarrow> bool) \<Rightarrow> ('a \<Rightarrow> 'a) \<Rightarrow> 'a list \<Rightarrow> 'a list" where
  "update_first P f [] = []"
| "update_first P f (x # xs) = (if P x then f x # xs else x # update_first P f xs)"

section \<open>Upsert (\<open>ProductETL._process_single_product\<close>)\<close>

record etl =
  session_id :: string
  platform_cache :: "pystr \<rightharpoonup> platform"
  category_cache :: "pystr \<rightharpoonup> category"

text \<open>\<open>n or 0\<close> for a nullable integer.\<close>

definition or_zero :: "int option \<Rightarrow> int" where
  "or_zero n = (case n of None \<Rightarrow> 0 | Some c \<Rightarrow> c)"

text \<open>
  The assignments of the update branch, applied to the row found.  \<open>updated_at\<close> is not
  assigned by the branch: the column has \<open>onupdate\<close>, so the store sets it when the changed
  row is written.
\<close>

definition update_existing :: "timestamp \<Rightarrow> pystr \<Rightarrow> pystr \<Rightarrow> price_data \<Rightarrow> raw_product \<Rightarrow> product \<Rightarrow> product" where
  "update_existing now name normalized_name pd raw existing =
     existing\<lparr> p_name := name,
               p_normalized_name := normalized_name,
               p_current_price := Some (pd_current_price pd),
               p_original_price := Some (pd_original_price pd),
               p_discount_percentage := Some (pd_discount pd),
               p_is_available := Some (dict_get (rp_availability raw) True),
               p_url := Some (dict_get (rp_url raw) []),
               p_image_url := Some (dict_get (rp_image_url raw) []),
               p_last_scraped := Some now,
               p_scrape_count := Some (or_zero (p_scrape_count existing) + 1),
               p_updated_at := Some now \<rparr>"

text \<open>
  The row of the create branch as the flush inserts it: the constructor's arguments,
  a fresh id, and the column defaults (\<open>currency\<close>, \<open>scrape_count = 1\<close>, \<open>created_at\<close>,
  \<open>updated_at\<close>).
\<close>

definition new_product :: "timestamp \<Rightarrow> int \<Rightarrow> pystr \<Rightarrow> pystr \<Rightarrow> pystr \<Rightarrow> pystr \<Rightarrow> platform \<Rightarrow>
    category option \<Rightarrow> price_data \<Rightarrow> real \<Rightarrow> raw_product \<Rightarrow> product" where
  "new_product now new_id name normalized_name brand model platform category pd quality raw =
     \<lparr> p_id = new_id,
       p_name = name,
       p_normalized_name = normalized_name,
       p_description = Some (dict_get (rp_description raw) []),
       p_brand = Some brand,
       p_model = Some model,
       p_platform_id = pl_id platform,
       p_platform_product_id = dict_get (rp_product_id raw) [],
       p_url = Some (dict_get (rp_url raw) []),
       p_image_url = Some (dict_get (rp_image_url raw) []),
       p_category_id = map_option cat_id category,
       p_current_price = Some (pd_current_price pd),
       p_original_price = Some (pd_original_price pd),
       p_discount_percentage = Some (pd_discount pd),
       p_currency = Some ''TWD'',
       p_is_available = Some (dict_get (rp_availability raw) True),
       p_stock_status = None,
       p_data_quality_score = Some quality,
       p_last_scraped = Some now,
       p_scrape_count = Some 1,
       p_created_at = Some now,
       p_updated_at = Some now \<rparr>"

definition new_price_history :: "etl \<Rightarrow> timestamp \<Rightarrow> product \<Rightarrow> platform \<Rightarrow> price_data \<Rightarrow> raw_product \<Rightarrow> price_history" where
  "new_price_history self now product platform pd raw =
     \<lparr> ph_id = None,
       ph_product_id = p_id product,
       ph_platform_id = pl_id platform,
       ph_price = pd_current_price pd,
       ph_original_price = Some (pd_original_price pd),
       ph_discount_percentage = Some (pd_discount pd),
       ph_currency = None,
       ph_availability = Some (dict_get (rp_availability raw) True),
       ph_stock_status = None,
       ph_promotional_tag = None,
       ph_scraped_at = Some now,
       ph_scrape_session_id = Some (session_id self) \<rparr>"

text \<open>\<open>db.add(price_history)\<close>: the record is pending until the next flush.\<close>

definition add_history :: "price_history \<Rightarrow> db \<Rightarrow> db" where
  "add_history h d = d\<lparr> pending_history := pending_history d @ [h] \<rparr>"

text \<open>
  The filter of the query for the existing product: the platform's id and the record's
  product id.
\<close>

definition same_key :: "platform \<Rightarrow> raw_product \<Rightarrow> product \<Rightarrow> bool" where
  "same_key platform raw p =
     (p_platform_id p = pl_id platform \<and>
      p_platform_product_id p = dict_get (rp_product_id raw) [])"

text \<open>
  The result is the exception raised, or the product returned (\<open>None\<close> for a record that
  is skipped), with the store afterwards.  The two readings of the clock within one call
  are one instant \<open>now\<close>.
\<close>

definition process_single_product ::
    "pylib \<Rightarrow> etl \<Rightarrow> timestamp \<Rightarrow> db \<Rightarrow> raw_product \<Rightarrow> (py_error + product option) \<times> db" where
  "process_single_product L self now d raw =
     (let name = clean_text L (dict_get (rp_name raw) []) in
      if name = [] \<or> length name < 3 then (Inr None, d)
      else
        let normalized_name = normalize_name L name;
            platform_name = str_lower L (dict_get (rp_platform raw) [])
        in case platform_cache self platform_name of
             None \<Rightarrow> (Inr None, d)
           | Some platform \<Rightarrow>
               (let category = categorize_product L (category_cache self) name
                in case extract_pricing L raw of
                     Inl e \<Rightarrow> (Inl e, d)
                   | Inr pd \<Rightarrow>
                       (let (brand, model) = extract_brand_model L name
                        in case find (same_key platform raw) (products d) of
                             Some existing \<Rightarrow>
                               (let product = update_existing now name normalized_name pd raw existing;
                                    d1 = d\<lparr> products :=
                                           update_first (same_key platform raw)
                                             (update_existing now name normalized_name pd raw)
                                             (products d) \<rparr>
                                in (Inr (Some product),
                                    add_history (new_price_history self now product platform pd raw) d1))
                           | None \<Rightarrow>
                               (case calculate_quality_score raw of
                                  Inl e \<Rightarrow> (Inl e, d)
                                | Inr quality \<Rightarrow>
                                    (let d1 = flush now d;
                                         product = new_product now (next_id (map p_id (products d1)))
                                                     name normalized_name brand model platform
                                                     category pd quality raw;
                                         d2 = d1\<lparr> products := products d1 @ [product] \<rparr>
                                     in (Inr (Some product),
                                         add_history (new_price_history self now product platform pd raw) d2))))))"

section \<open>Matching (\<open>ProductETL._find_product_matches\<close>)\<close>

text \<open>
  \<open>_calculate_similarity\<close>.  \<open>normalized_name or ""\<close> is the name itself for a string.  A
  brand or a price counts when it is truthy: a brand that is not \<open>None\<close> and not empty, a
  price that is not \<open>None\<close> and not zero.  The literals \<open>0.3\<close>, \<open>0.7\<close> and \<open>0.1\<close> are doubles,
  \<open>abs\<close>, \<open>max\<close> and \<open>min\<close> are exact, and the sum is computed from the left.
\<close>

definition calculate_similarity :: "pylib \<Rightarrow> product \<Rightarrow> product \<Rightarrow> real" where
  "calculate_similarity L product_a product_b =
     (let name_a = p_normalized_name product_a;
          name_b = p_normalized_name product_b;
          name_sim = seq_ratio L name_a name_b;
          brand_sim =
            (case (p_brand product_a, p_brand product_b) of
               (Some brand_a, Some brand_b) \<Rightarrow>
                 if brand_a \<noteq> [] \<and> brand_b \<noteq> [] \<and> str_lower L brand_a = str_lower L brand_b
                 then to_double 0.3 else 0
             | _ \<Rightarrow> 0);
          price_sim =
            (case (p_current_price product_a, p_current_price product_b) of
               (Some price_a, Some price_b) \<Rightarrow>
                 if price_a \<noteq> 0 \<and> price_b \<noteq> 0
                 then (let price_diff = \<bar>float_sub price_a price_b\<bar>;
                           max_price = max price_a price_b
                       in if max_price > 0
                          then (let price_ratio = float_sub 1 (float_div price_diff max_price)
                                in if price_ratio > to_double 0.7 then to_double 0.1 else 0)
                          else 0)
                 else 0
             | _ \<Rightarrow> 0);
          total_similarity = float_add (float_add name_sim brand_sim) price_sim
      in min total_similarity 1)"

text \<open>
  The query for an edge between two products in either order.  It reads the table, not
  the pending objects, and has no condition on \<open>is_active\<close> or \<open>is_verified\<close>.
\<close>

definition existing_match :: "db \<Rightarrow> product \<Rightarrow> product \<Rightarrow> product_match option" where
  "existing_match d product_a product_b =
     find (\<lambda>m. (pm_product_a_id m = p_id product_a \<and> pm_product_b_id m = p_id product_b) \<or>
                (pm_product_a_id m = p_id product_b \<and> pm_product_b_id m = p_id product_a))
       (product_matches d)"

definition new_match :: "product \<Rightarrow> product \<Rightarrow> real \<Rightarrow> product_match" where
  "new_match product_a product_b similarity =
     \<lparr> pm_id = None,
       pm_product_a_id = p_id product_a,
       pm_product_b_id = p_id product_b,
       pm_similarity_score = similarity,
       pm_match_type = Some (if similarity < to_double 0.9 then ''similar'' else ''exact''),
       pm_match_algorithm = Some ''name_similarity'',
       pm_is_verified = None,
       pm_is_active = None,
       pm_created_at = None \<rparr>"

text \<open>The body of the inner loop, for one pair.\<close>

definition match_pair :: "pylib \<Rightarrow> product \<Rightarrow> product \<Rightarrow> db \<Rightarrow> db" where
  "match_pair L product_a product_b d =
     (if p_platform_id product_a = p_platform_id product_b then d
      else
        let similarity = calculate_similarity L product_a product_b
        in if similarity \<ge> to_double 0.7
           then (case existing_match d product_a product_b of
                   Some m \<Rightarrow> d
                 | None \<Rightarrow>
                     d\<lparr> pending_matches :=
                          pending_matches d @ [new_match product_a product_b similarity] \<rparr>)
           else d)"

text \<open>
  The two loops: every product against the products after it in the list.  (The counter
  \<open>matches_found\<close> is only printed.)
\<close>

fun find_product_matches :: "pylib \<Rightarrow> db \<Rightarrow> product list \<Rightarrow> db" where
  "find_product_matches L d [] = d"
| "find_product_matches L d (product_a # rest) =
     find_product_matches L (fold (match_pair L product_a) rest d) rest"

section \<open>The orchestrator (\<open>ProductETL.process_scraper_results\<close>)\<close>

text \<open>
  \<open>_create_scrape_session\<close>.  The platforms are \<open>list(set(...))\<close>, whose order Python
  leaves open: the names without repetition, in some order.  The row is added and flushed
  at once, with the defaults of its columns.
\<close>

definition create_scrape_session :: "string \<Rightarrow> timestamp \<Rightarrow> db \<Rightarrow> pystr \<Rightarrow> raw_product list \<Rightarrow> scrape_session \<times> db" where
  "create_scrape_session sid now d query results =
     (let platform_names = remdups (map (\<lambda>item. dict_get (rp_platform item) (asc ''unknown'')) results);
          d1 = flush now d;
          session = \<lparr> ss_id = next_id (map ss_id (scrape_sessions d1)),
                      ss_session_id = sid,
                      ss_query = Some query,
                      ss_platforms_scraped = platform_names,
                      ss_products_found = Some 0,
                      ss_success_rate = None,
                      ss_started_at = Some now,
                      ss_completed_at = None,
                      ss_duration_seconds = None,
                      ss_status = Some ''running'',
                      ss_error_message = None,
                      ss_created_at = Some now \<rparr>
      in (session, d1\<lparr> scrape_sessions := scrape_sessions d1 @ [session] \<rparr>))"

text \<open>\<open>_build_caches\<close>: a dict comprehension, so a later row replaces an earlier one.\<close>

definition build_caches :: "string \<Rightarrow> db \<Rightarrow> etl" where
  "build_caches sid d =
     \<lparr> session_id = sid,
       platform_cache = map_of (rev (map (\<lambda>p. (pl_name p, p)) (platforms d))),
       category_cache = map_of (rev (map (\<lambda>c. (cat_name c, c)) (categories d))) \<rparr>"

text \<open>
  The loop over the records.  An exception of one record is printed and the loop goes
  on.  The list collected holds the product objects; an object is a row, named here by
  its id and read back when the list is used, since a later record may update the same
  row.  Record \<open>i\<close> is processed at the instant \<open>clock i\<close>.
\<close>

fun process_all :: "pylib \<Rightarrow> etl \<Rightarrow> (nat \<Rightarrow> timestamp) \<Rightarrow> nat \<Rightarrow> db \<Rightarrow> raw_product list \<Rightarrow> int list \<times> db" where
  "process_all L self clock i d [] = ([], d)"
| "process_all L self clock i d (raw_product # rest) =
     (case process_single_product L self (clock i) d raw_product of
        (Inl e, d1) \<Rightarrow> process_all L self clock (Suc i) d1 rest
      | (Inr None, d1) \<Rightarrow> process_all L self clock (Suc i) d1 rest
      | (Inr (Some product), d1) \<Rightarrow>
          (let (processed, d2) = process_all L self clock (Suc i) d1 rest
           in (p_id product # processed, d2)))"

definition load_products :: "db \<Rightarrow> int list \<Rightarrow> product list" where
  "load_products d ids = List.map_filter (\<lambda>i. find (\<lambda>p. p_id p = i) (products d)) ids"

record etl_result =
  res_session_id :: string
  res_products_processed :: nat
  res_success_rate :: real
  res_products :: "product list"

text \<open>
  The store is an outside party: a call into it may raise.  The parameter says at which
  call of a run, if any, it does.
\<close>

datatype db_fault = NoFault | FaultCreateSession | FaultBuildCaches | FaultFindMatches | FaultCommit

text \<open>
  The result is the exception that reaches the caller, or the report, with the store
  after \<open>db.close()\<close>.  In the handler \<open>db.rollback()\<close> undoes the whole transaction, that
  is everything since the session was opened.
\<close>

definition process_scraper_results ::
    "pylib \<Rightarrow> db_fault \<Rightarrow> (nat \<Rightarrow> timestamp) \<Rightarrow> string \<Rightarrow> db \<Rightarrow> raw_product list \<Rightarrow> pystr \<Rightarrow>
       (py_error + etl_result) \<times> db" where
  "process_scraper_results L fault clock sid store scraper_results query =
     (let d0 = open_session store;
          n = length scraper_results
      in if fault = FaultCreateSession then (Inl DatabaseError, d0)
         else
           let (session, d1) = create_scrape_session sid (clock 0) d0 query scraper_results
           in if fault = FaultBuildCaches then (Inl DatabaseError, d0)
              else
                let self = build_caches sid d1;
                    (processed, d2) = process_all L self clock 1 d1 scraper_results
                in if fault = FaultFindMatches then (Inl DatabaseError, d0)
                   else
                     let d3 = find_product_matches L d2 (load_products d2 processed);
                         success_rate = (if scraper_results \<noteq> []
                                         then real (length processed) / real n else 0);
                         d4 = d3\<lparr> scrape_sessions :=
                                 update_first (\<lambda>s. ss_id s = ss_id session)
                                   (\<lambda>s. s\<lparr> ss_products_found := Some (int (length processed)),
                                           ss_completed_at := Some (clock (Suc n)),
                                           ss_status := Some ''completed'',
                                           ss_success_rate := Some success_rate \<rparr>)
                                   (scrape_sessions d3) \<rparr>
                     in if fault = FaultCommit then (Inl DatabaseError, d0)
                        else
                          let d5 = commit (clock (Suc n)) d4
                          in (Inr \<lparr> res_session_id = sid,
                                    res_products_processed = length processed,
                                    res_success_rate = success_rate,
                                    res_products = load_products d5 processed \<rparr>,
                              d5))"

section \<open>The validating loader (\<open>etl/schemas.py\<close>, \<open>etl/load.py\<close>)\<close>

text \<open>
  A validated \<open>ProductSchema\<close> object.  (\<open>scraped_at\<close>, which the transformer adds to a
  record, is carried through unchanged and is left out.)
\<close>

record product_schema =
  ps_platform :: pystr
  ps_product_id :: pystr
  ps_name :: pystr
  ps_price :: real
  ps_original_price :: "real option"
  ps_url :: pystr
  ps_image_url :: "pystr option"
  ps_brand :: "pystr option"
  ps_description :: "pystr option"
  ps_availability :: bool

text \<open>What a record can be refused for: a required key that is missing, or a check of a field.\<close>

datatype schema_error =
    MissingField string
  | InvalidPlatform
  | MissingIdentifier
  | InvalidName
  | InvalidPrice
  | PriceOutOfRange
  | InvalidUrl
  | BrandTooLong
  | DescriptionTooLong

definition allowed_platforms :: "pystr list" where
  "allowed_platforms = map asc [''pchome'', ''momo'', ''shopee'', ''yahoo'', ''ruten'']"

definition validate_platform :: "pylib \<Rightarrow> pystr option \<Rightarrow> schema_error + pystr" where
  "validate_platform L field =
     (case field of
        None \<Rightarrow> Inl (MissingField ''platform'')
      | Some v \<Rightarrow> if str_lower L v \<in> set allowed_platforms then Inr (str_lower L v)
                  else Inl InvalidPlatform)"

definition validate_product_id :: "pystr option \<Rightarrow> schema_error + pystr" where
  "validate_product_id field =
     (case field of
        None \<Rightarrow> Inl (MissingField ''product_id'')
      | Some v \<Rightarrow> if length v < 1 then Inl MissingIdentifier else Inr v)"

text \<open>The characters of the class that \<open>clean_product_name\<close> removes, as the file has them.\<close>

definition spam_characters :: "nat list" where
  "spam_characters =
     [1074, 1203, 8230, 1206, 1263, 1175, 1187, 1025, 1088, 1209, 8217, 1210, 8221, 1176]"

text \<open>\<open>' '.join(v.split())\<close>.\<close>

definition join_split :: "pylib \<Rightarrow> pystr \<Rightarrow> pystr" where
  "join_split L v = strip L (collapse_ws L v)"

definition clean_product_name :: "pylib \<Rightarrow> pystr \<Rightarrow> pystr" where
  "clean_product_name L v =
     strip L (filter (\<lambda>c. c \<notin> set spam_characters) (join_split L v))"

text \<open>The length bounds of the field are checked on the value given, before the cleaning.\<close>

definition validate_name :: "pylib \<Rightarrow> pystr option \<Rightarrow> schema_error + pystr" where
  "validate_name L field =
     (case field of
        None \<Rightarrow> Inl (MissingField ''name'')
      | Some v \<Rightarrow> if length v < 1 \<or> length v > 500 then Inl InvalidName
                  else Inr (clean_product_name L v))"

text \<open>
  A price: a number, or a string that parses as one; at least 0 (the bound of the field)
  and at most 10,000,000 (\<open>validate_price_range\<close>).
\<close>

definition validate_price_range :: "pylib \<Rightarrow> pyval \<Rightarrow> schema_error + real" where
  "validate_price_range L v =
     (case py_float L v of
        Inl e \<Rightarrow> Inl InvalidPrice
      | Inr x \<Rightarrow> if x < 0 then Inl PriceOutOfRange
                 else if x > 10000000 then Inl PriceOutOfRange
                 else Inr x)"

definition validate_price :: "pylib \<Rightarrow> pyval option \<Rightarrow> schema_error + real" where
  "validate_price L field =
     (case field of
        None \<Rightarrow> Inl (MissingField ''price'')
      | Some v \<Rightarrow> validate_price_range L v)"

definition validate_original_price :: "pylib \<Rightarrow> pyval option \<Rightarrow> schema_error + real option" where
  "validate_original_price L field =
     (case field of
        None \<Rightarrow> Inr None
      | Some PNone \<Rightarrow> Inr None
      | Some v \<Rightarrow> (case validate_price_range L v of Inl e \<Rightarrow> Inl e | Inr x \<Rightarrow> Inr (Some x)))"

text \<open>
  The pattern \<open>^https?://[^\s/$.?#].[^\s]*$\<close> after the scheme: a character that is not
  whitespace and none of \<open>/ $ . ? #\<close>, any character but a newline, then characters that
  are not whitespace, up to the end or to a last newline.
\<close>

definition url_tail :: "pylib \<Rightarrow> pystr \<Rightarrow> bool" where
  "url_tail L r =
     (case r of
        c1 # c2 # tail \<Rightarrow>
          \<not> isspace L c1 \<and> c1 \<notin> set (asc ''/$.?#'') \<and> c2 \<noteq> 10 \<and>
          (list_all (\<lambda>c. \<not> isspace L c) tail \<or>
           (tail \<noteq> [] \<and> last tail = 10 \<and> list_all (\<lambda>c. \<not> isspace L c) (butlast tail)))
      | _ \<Rightarrow> False)"

definition validate_url :: "pylib \<Rightarrow> pystr option \<Rightarrow> schema_error + pystr" where
  "validate_url L field =
     (case field of
        None \<Rightarrow> Inl (MissingField ''url'')
      | Some v \<Rightarrow>
          if prefix (asc ''http://'') v
          then (if url_tail L (drop 7 v) then Inr v else Inl InvalidUrl)
          else if prefix (asc ''https://'') v
          then (if url_tail L (drop 8 v) then Inr v else Inl InvalidUrl)
          else Inl InvalidUrl)"

definition validate_brand :: "pystr option \<Rightarrow> schema_error + pystr option" where
  "validate_brand field =
     (case field of
        None \<Rightarrow> Inr None
      | Some v \<Rightarrow> if length v > 100 then Inl BrandTooLong else Inr (Some v))"

text \<open>
  \<open>re.sub(r'<[^>]+>', '', v)\<close>: a \<open><\<close> (60), at least one character that is not \<open>>\<close>
  (62), and the next \<open>>\<close>.  The counter is the number of characters of the current tag
  still to be skipped.
\<close>

fun strip_tags_from :: "nat \<Rightarrow> pystr \<Rightarrow> pystr" where
  "strip_tags_from skip [] = []"
| "strip_tags_from (Suc k) (c # cs) = strip_tags_from k cs"
| "strip_tags_from 0 (c # cs) =
     (if c = 60 \<and> takeWhile (\<lambda>x. x \<noteq> 62) cs \<noteq> [] \<and> dropWhile (\<lambda>x. x \<noteq> 62) cs \<noteq> []
      then strip_tags_from (length (takeWhile (\<lambda>x. x \<noteq> 62) cs) + 1) cs
      else c # strip_tags_from 0 cs)"

definition clean_description :: "pylib \<Rightarrow> pystr \<Rightarrow> pystr" where
  "clean_description L v = (if v = [] then v else join_split L (strip_tags_from 0 v))"

definition validate_description :: "pylib \<Rightarrow> pystr option \<Rightarrow> schema_error + pystr option" where
  "validate_description L field =
     (case field of
        None \<Rightarrow> Inr None
      | Some v \<Rightarrow> if length v > 2000 then Inl DescriptionTooLong
                  else Inr (Some (clean_description L v)))"

definition err_of :: "schema_error + 'a \<Rightarrow> schema_error list" where
  "err_of r = (case r of Inl e \<Rightarrow> [e] | Inr v \<Rightarrow> [])"

text \<open>
  \<open>ProductSchema(**product_data)\<close>: the object, or the errors of all the fields that
  failed (one \<open>ValidationError\<close> in the source).  For every field pydantic checks the
  type and the bounds of \<open>Field\<close> first and runs the validator of the class on the result.
\<close>

definition ProductSchema :: "pylib \<Rightarrow> raw_product \<Rightarrow> schema_error list + product_schema" where
  "ProductSchema L product_data =
     (let platform = validate_platform L (rp_platform product_data);
          product_id = validate_product_id (rp_product_id product_data);
          name = validate_name L (rp_name product_data);
          price = validate_price L (rp_price product_data);
          original_price = validate_original_price L (rp_original_price product_data);
          url = validate_url L (rp_url product_data);
          brand = validate_brand (rp_brand product_data);
          description = validate_description L (rp_description product_data)
      in case (platform, product_id, name, price, original_price, url, brand, description) of
           (Inr v1, Inr v2, Inr v3, Inr v4, Inr v5, Inr v6, Inr v7, Inr v8) \<Rightarrow>
             Inr \<lparr> ps_platform = v1, ps_product_id = v2, ps_name = v3, ps_price = v4,
                   ps_original_price = v5, ps_url = v6,
                   ps_image_url = rp_image_url product_data,
                   ps_brand = v7, ps_description = v8,
                   ps_availability = dict_get (rp_availability product_data) True \<rparr>
         | _ \<Rightarrow>
             Inl (err_of platform @ err_of product_id @ err_of name @ err_of price @
                  err_of original_price @ err_of url @ err_of brand @ err_of description))"

text \<open>
  \<open>DataLoader._validate_products\<close>: the accepted records, and for each refused record
  its number (from 1) with the errors.  \<open>i\<close> is the index of the head of the list.
\<close>

fun validate_products_from :: "pylib \<Rightarrow> nat \<Rightarrow> raw_product list \<Rightarrow>
    product_schema list \<times> (nat \<times> schema_error list) list" where
  "validate_products_from L i [] = ([], [])"
| "validate_products_from L i (product_data # rest) =
     (let (validated_products, errors) = validate_products_from L (Suc i) rest
      in case ProductSchema L product_data of
           Inr validated_product \<Rightarrow> (validated_product # validated_products, errors)
         | Inl e \<Rightarrow> (validated_products, (i + 1, e) # errors))"

definition validate_products :: "pylib \<Rightarrow> raw_product list \<Rightarrow>
    product_schema list \<times> (nat \<times> schema_error list) list" where
  "validate_products L product_list = validate_products_from L 0 product_list"

text \<open>
  \<open>BulkProductSchema.validate_product_list\<close>: the whole list is refused when it is empty or
  when a (platform, product id) pair occurs twice; otherwise it is returned as it is.
\<close>

datatype bulk_error = EmptyProductList | DuplicateProduct pystr pystr

fun check_duplicates :: "(pystr \<times> pystr) list \<Rightarrow> product_schema list \<Rightarrow> bulk_error option" where
  "check_duplicates seen [] = None"
| "check_duplicates seen (product # rest) =
     (let key = (ps_platform product, ps_product_id product)
      in if key \<in> set seen then Some (DuplicateProduct (ps_platform product) (ps_product_id product))
         else check_duplicates (key # seen) rest)"

definition validate_product_list :: "product_schema list \<Rightarrow> bulk_error + product_schema list" where
  "validate_product_list v =
     (if v = [] then Inl EmptyProductList
      else case check_duplicates [] v of
             Some e \<Rightarrow> Inl e
           | None \<Rightarrow> Inr v)"

section \<open>An instance of the library on ASCII text\<close>

text \<open>
  The concrete runs below need the library parameters at concrete strings.  This
  instance is what Python computes on ASCII text: the ASCII whitespace, letters and
  digits, float parsing for strings of decimal digits, and the ratio of \<open>difflib\<close> for
  strings of fewer than 200 characters (where its popularity heuristic is off).
\<close>

definition ascii_isspace :: "nat \<Rightarrow> bool" where
  "ascii_isspace c = (c \<in> set [9, 10, 11, 12, 13, 28, 29, 30, 31, 32])"

definition ascii_isdigit :: "nat \<Rightarrow> bool" where
  "ascii_isdigit c = (48 \<le> c \<and> c \<le> 57)"

definition ascii_isword :: "nat \<Rightarrow> bool" where
  "ascii_isword c = (ascii_isdigit c \<or> (65 \<le> c \<and> c \<le> 90) \<or> (97 \<le> c \<and> c \<le> 122) \<or> c = 95)"

definition ascii_lower :: "pystr \<Rightarrow> pystr" where
  "ascii_lower s = map (\<lambda>c. if 65 \<le> c \<and> c \<le> 90 then c + 32 else c) s"

definition ascii_upper :: "pystr \<Rightarrow> pystr" where
  "ascii_upper s = map (\<lambda>c. if 97 \<le> c \<and> c \<le> 122 then c - 32 else c) s"

definition ascii_ci_eq :: "nat \<Rightarrow> nat \<Rightarrow> bool" where
  "ascii_ci_eq a b = (ascii_lower [a] = ascii_lower [b])"

definition digits_to_float :: "pystr \<Rightarrow> real option" where
  "digits_to_float s =
     (if s \<noteq> [] \<and> list_all ascii_isdigit s
      then Some (real (fold (\<lambda>c n. 10 * n + (c - 48)) s 0))
      else None)"

text \<open>The length of the longest common prefix of two strings.\<close>

fun common_prefix :: "pystr \<Rightarrow> pystr \<Rightarrow> nat" where
  "common_prefix (x # xs) (y # ys) = (if x = y then Suc (common_prefix xs ys) else 0)"
| "common_prefix xs ys = 0"

text \<open>
  \<open>find_longest_match\<close>: a longest block \<open>a[i:i+k] == b[j:j+k]\<close>; of these the one that
  starts earliest in \<open>a\<close>, and of those the one that starts earliest in \<open>b\<close>.
\<close>

definition longest_match :: "pystr \<Rightarrow> pystr \<Rightarrow> nat \<times> nat \<times> nat" where
  "longest_match a b =
     fold (\<lambda>(i, j) (bi, bj, bk).
             let k = common_prefix (drop i a) (drop j b)
             in if k > bk then (i, j, k) else (bi, bj, bk))
       (List.product [0..<length a] [0..<length b]) (0, 0, 0)"

text \<open>
  The total length of the matching blocks: the longest block, then the same to the left
  and to the right of it.
\<close>

function matching_total :: "pystr \<Rightarrow> pystr \<Rightarrow> nat" where
  "matching_total a b =
     (case longest_match a b of
        (i, j, k) \<Rightarrow>
          if k = 0 then 0
          else k + matching_total (take i a) (take j b)
                 + matching_total (drop (i + k) a) (drop (j + k) b))"
  by pat_completeness auto

lemma fold_longest_bounds:
  "fold (\<lambda>(i, j) (bi, bj, bk).
           let k = common_prefix (drop i a) (drop j b)
           in if k > bk then (i, j, k) else (bi, bj, bk)) ps acc = (i, j, k) \<Longrightarrow>
   (\<forall>(i, j) \<in> set ps. i < la \<and> j < lb) \<Longrightarrow>
   (case acc of (bi, bj, bk) \<Rightarrow> 0 < bk \<longrightarrow> bi < la \<and> bj < lb) \<Longrightarrow>
   0 < k \<Longrightarrow> i < la \<and> j < lb"
proof (induction ps arbitrary: acc)
  case Nil
  then show ?case by auto
next
  case (Cons p ps)
  let ?step = "\<lambda>(i, j) (bi, bj, bk).
                 let k = common_prefix (drop i a) (drop j b)
                 in if k > bk then (i, j, k) else (bi, bj, bk)"
  have run: "fold ?step ps (?step p acc) = (i, j, k)"
    using Cons.prems(1) by simp
  have rest: "\<forall>(i, j) \<in> set ps. i < la \<and> j < lb"
    using Cons.prems(2) by simp
  have acc': "case ?step p acc of (bi, bj, bk) \<Rightarrow> 0 < bk \<longrightarrow> bi < la \<and> bj < lb"
    using Cons.prems(2,3) by (auto simp: Let_def split: prod.splits)
  show ?case
    by (rule Cons.IH [OF run rest acc' Cons.prems(4)])
qed

lemma longest_match_bounds:
  "longest_match a b = (i, j, k) \<Longrightarrow> 0 < k \<Longrightarrow> i < length a \<and> j < length b"
  unfolding longest_match_def
  by (erule fold_longest_bounds) auto

termination matching_total
  apply (relation "measure (\<lambda>(a, b). length a + length b)")
    apply simp
   apply (auto dest!: longest_match_bounds [OF sym])
  done

declare matching_total.simps [simp del]

text \<open>
  \<open>ratio()\<close>: \<open>2.0 * matches / length\<close> for the matched length and the total length, and 1
  for two empty strings.  (Twice the matched length is a double as it is.)
\<close>

definition difflib_ratio :: "pystr \<Rightarrow> pystr \<Rightarrow> real" where
  "difflib_ratio a b =
     (let total = length a + length b
      in if total = 0 then 1 else float_div (2 * real (matching_total a b)) (real total))"

definition ascii_lib :: pylib where
  "ascii_lib =
     \<lparr> isspace = ascii_isspace,
       isword = ascii_isword,
       isdigit = ascii_isdigit,
       str_lower = ascii_lower,
       str_upper = ascii_upper,
       ci_eq = ascii_ci_eq,
       str_to_float = digits_to_float,
       seq_ratio = difflib_ratio \<rparr>"

section \<open>Notions used in the statements\<close>

text \<open>
  The history of a store, flushed and pending, in the order it was written: for every
  record the product it belongs to and the session it is tagged with.
\<close>

definition history_tags :: "db \<Rightarrow> (int \<times> string option) list" where
  "history_tags d =
     map (\<lambda>h. (ph_product_id h, ph_scrape_session_id h)) (price_histories d @ pending_history d)"

text \<open>The pair of products that an edge links, in the order stored.\<close>

definition pair_of :: "product_match \<Rightarrow> int \<times> int" where
  "pair_of m = (pm_product_a_id m, pm_product_b_id m)"

text \<open>The edges that one run of the matcher adds to the session.\<close>

definition created_edges :: "pylib \<Rightarrow> db \<Rightarrow> product list \<Rightarrow> product_match list" where
  "created_edges L d ps = drop (length (pending_matches d)) (pending_matches (find_product_matches L d ps))"

text \<open>
  The same edges as a function of the match table alone: what one pair contributes, and
  what the two loops contribute.  \<open>find_product_matches_eq\<close> below proves that the loops
  compute this.
\<close>

definition edges_of_pair :: "pylib \<Rightarrow> product_match list \<Rightarrow> product \<Rightarrow> product \<Rightarrow> product_match list" where
  "edges_of_pair L table product_a product_b =
     (if p_platform_id product_a \<noteq> p_platform_id product_b
         \<and> calculate_similarity L product_a product_b \<ge> to_double 0.7
         \<and> \<not> list_ex (\<lambda>m. (pm_product_a_id m = p_id product_a \<and> pm_product_b_id m = p_id product_b) \<or>
                           (pm_product_a_id m = p_id product_b \<and> pm_product_b_id m = p_id product_a)) table
      then [new_match product_a product_b (calculate_similarity L product_a product_b)]
      else [])"

fun edges_of_run :: "pylib \<Rightarrow> product_match list \<Rightarrow> product list \<Rightarrow> product_match list" where
  "edges_of_run L table [] = []"
| "edges_of_run L table (product_a # rest) =
     concat (map (edges_of_pair L table product_a) rest) @ edges_of_run L table rest"

text \<open>The key of a validated record: its platform and product id.\<close>

definition product_key :: "product_schema \<Rightarrow> pystr \<times> pystr" where
  "product_key product = (ps_platform product, ps_product_id product)"

section \<open>Example data\<close>

text \<open>A scraped record with no key at all; the examples set the keys they need.\<close>

definition empty_record :: raw_product where
  "empty_record =
     \<lparr> rp_platform = None, rp_product_id = None, rp_name = None, rp_price = None,
       rp_original_price = None, rp_url = None, rp_image_url = None, rp_brand = None,
       rp_description = None, rp_availability = None \<rparr>"

text \<open>A store with the three platforms of \<open>init_database\<close> and one category, and nothing else.\<close>

definition pchome :: platform where
  "pchome = \<lparr> pl_id = 1, pl_name = asc ''pchome'', pl_display_name = asc ''PChome'',
              pl_base_url = asc ''https://24h.pchome.com.tw'', pl_is_active = Some True,
       pl_created_at = Some 0 \<rparr>"

definition momo :: platform where
  "momo = \<lparr> pl_id = 2, pl_name = asc ''momo'', pl_display_name = asc ''momo'',
            pl_base_url = asc ''https://www.momoshop.com.tw'', pl_is_active = Some True,
       pl_created_at = Some 0 \<rparr>"

definition yahoo :: platform where
  "yahoo = \<lparr> pl_id = 3, pl_name = asc ''yahoo'', pl_display_name = asc ''Yahoo'',
             pl_base_url = asc ''https://tw.buy.yahoo.com'', pl_is_active = Some True,
       pl_created_at = Some 0 \<rparr>"

definition electronics :: category where
  "electronics = \<lparr> cat_id = 1, cat_name = asc ''Electronics'', cat_name_zh = None,
                   cat_parent_id = None, cat_created_at = Some 0 \<rparr>"

definition shop_db :: db where
  "shop_db =
     \<lparr> platforms = [pchome, momo, yahoo], categories = [electronics], products = [],
       price_histories = [], product_matches = [], scrape_sessions = [],
       pending_history = [], pending_matches = [] \<rparr>"

text \<open>The same phone as two shops list it, and a later, richer listing of the first shop.\<close>

definition rec_pchome :: raw_product where
  "rec_pchome =
     empty_record\<lparr> rp_platform := Some (asc ''pchome''), rp_product_id := Some (asc ''A1''),
                   rp_name := Some (asc ''iPhone 15''), rp_price := Some (PNum 100) \<rparr>"

definition rec_momo :: raw_product where
  "rec_momo =
     empty_record\<lparr> rp_platform := Some (asc ''momo''), rp_product_id := Some (asc ''B1''),
                   rp_name := Some (asc ''iPhone 15''), rp_price := Some (PNum 100) \<rparr>"

definition rec_pchome_later :: raw_product where
  "rec_pchome_later =
     rec_pchome\<lparr> rp_price := Some (PNum 90), rp_original_price := Some (PNum 100),
                  rp_url := Some (asc ''https://24h.pchome.com.tw/prod/A1'') \<rparr>"

text \<open>The caches of a run on that store, and the store after each of two observations.\<close>

definition shop_etl :: etl where
  "shop_etl = build_caches ''run-1'' shop_db"

definition first_row :: product where
  "first_row =
     new_product 1 1 (asc ''iPhone 15'') (asc ''iphone 15'') [] (asc ''15'') pchome
       (Some electronics)
       \<lparr> pd_current_price = 100, pd_original_price = 100, pd_discount = 0 \<rparr> 0.33 rec_pchome"

definition shop_db_1 :: db where
  "shop_db_1 =
     add_history
       (new_price_history shop_etl 1 first_row pchome
          \<lparr> pd_current_price = 100, pd_original_price = 100, pd_discount = 0 \<rparr> rec_pchome)
       (shop_db\<lparr> products := [first_row] \<rparr>)"

definition second_row :: product where
  "second_row =
     update_existing 2 (asc ''iPhone 15'') (asc ''iphone 15'')
       \<lparr> pd_current_price = 90, pd_original_price = 100, pd_discount = 10 \<rparr>
       rec_pchome_later first_row"

definition shop_db_2 :: db where
  "shop_db_2 =
     add_history
       (new_price_history shop_etl 2 second_row pchome
          \<lparr> pd_current_price = 90, pd_original_price = 100, pd_discount = 10 \<rparr> rec_pchome_later)
       (shop_db_1\<lparr> products := [second_row] \<rparr>)"

text \<open>
  A run over three records, the first shop's phone listed twice, and the rows it leaves:
  the phone of the second shop, and the first shop's phone after its second observation.
\<close>

definition momo_row :: product where
  "momo_row =
     new_product 2 2 (asc ''iPhone 15'') (asc ''iphone 15'') [] (asc ''15'') momo
       (Some electronics)
       \<lparr> pd_current_price = 100, pd_original_price = 100, pd_discount = 0 \<rparr> 0.33 rec_momo"

definition third_row :: product where
  "third_row =
     update_existing 3 (asc ''iPhone 15'') (asc ''iphone 15'')
       \<lparr> pd_current_price = 100, pd_original_price = 100, pd_discount = 0 \<rparr>
       rec_pchome first_row"

definition run_records :: "raw_product list" where
  "run_records = [rec_pchome, rec_momo, rec_pchome]"

text \<open>
  Stores and rows for the matcher: the two phones side by side; the same with an edge
  between them already in the table, inactive and in the other direction; two rows with
  negative prices and unrelated names; two rows whose names normalize to nothing.
\<close>

definition shop_two :: db where
  "shop_two = shop_db\<lparr> products := [first_row, momo_row] \<rparr>"

definition old_edge :: product_match where
  "old_edge =
     \<lparr> pm_id = Some 1, pm_product_a_id = 2, pm_product_b_id = 1, pm_similarity_score = 1,
       pm_match_type = Some ''exact'', pm_match_algorithm = Some ''name_similarity'',
       pm_is_verified = Some False, pm_is_active = Some False, pm_created_at = Some 0 \<rparr>"

definition shop_matched :: db where
  "shop_matched = shop_two\<lparr> product_matches := [old_edge] \<rparr>"

definition neg_a :: product where
  "neg_a = first_row\<lparr> p_name := asc ''abc'', p_normalized_name := asc ''abc'',
                       p_current_price := Some (- 10) \<rparr>"

definition neg_b :: product where
  "neg_b = momo_row\<lparr> p_name := asc ''xyz'', p_normalized_name := asc ''xyz'',
                      p_current_price := Some (- 5) \<rparr>"

definition blank_a :: product where
  "blank_a = first_row\<lparr> p_name := asc ''((('', p_normalized_name := [] \<rparr>"

definition blank_b :: product where
  "blank_b = momo_row\<lparr> p_name := asc ''[[['', p_normalized_name := [] \<rparr>"

text \<open>
  Two rows of different platforms with the names \<open>abcde\<close> and \<open>abcxy\<close>, of ratio 0.6, the
  same brand and no price.
\<close>

definition near_a :: product where
  "near_a = first_row\<lparr> p_name := asc ''Abcde'', p_normalized_name := asc ''abcde'',
                        p_brand := Some (asc ''Apple''), p_current_price := None \<rparr>"

definition near_b :: product where
  "near_b = momo_row\<lparr> p_name := asc ''Abcxy'', p_normalized_name := asc ''abcxy'',
                       p_brand := Some (asc ''apple''), p_current_price := None \<rparr>"

text \<open>
  A store with two rows of different platforms, at the same price, whose names are
  anagrams of each other after a common start.
\<close>

definition tide_a :: product where
  "tide_a = first_row\<lparr> p_name := asc ''Xy Tide'', p_normalized_name := asc ''xy tide'' \<rparr>"

definition diet_b :: product where
  "diet_b = momo_row\<lparr> p_name := asc ''Xy Diet'', p_normalized_name := asc ''xy diet'' \<rparr>"

definition shop_tide :: db where
  "shop_tide = shop_db\<lparr> products := [tide_a, diet_b] \<rparr>"

text \<open>
  Stores that hold the phone of the first shop already, with no scrape count (a row
  written by other code) and with the count 5.
\<close>

definition legacy_row :: product where
  "legacy_row = first_row\<lparr> p_scrape_count := None \<rparr>"

definition shop_legacy :: db where
  "shop_legacy = shop_db\<lparr> products := [legacy_row] \<rparr>"

definition counted_row :: product where
  "counted_row = first_row\<lparr> p_scrape_count := Some 5 \<rparr>"

definition shop_counted :: db where
  "shop_counted = shop_db\<lparr> products := [counted_row] \<rparr>"

text \<open>
  For the validating loader: the later listing of the first shop twice in one batch, at two
  prices, and the two objects that the schema makes of them.
\<close>

definition rec_dup_first :: raw_product where
  "rec_dup_first = rec_pchome_later"

definition rec_dup_second :: raw_product where
  "rec_dup_second = rec_pchome_later\<lparr> rp_price := Some (PNum 80) \<rparr>"

definition valid_first :: product_schema where
  "valid_first =
     \<lparr> ps_platform = asc ''pchome'', ps_product_id = asc ''A1'', ps_name = asc ''iPhone 15'',
       ps_price = 90, ps_original_price = Some 100,
       ps_url = asc ''https://24h.pchome.com.tw/prod/A1'', ps_image_url = None, ps_brand = None,
       ps_description = None, ps_availability = True \<rparr>"

definition valid_second :: product_schema where
  "valid_second = valid_first\<lparr> ps_price := 80 \<rparr>"


section \<open>Facts about the rounding\<close>

lemma scale_mantissa_up:
  "2 ^ 52 \<le> m * 2 ^ j \<Longrightarrow> m * 2 ^ j < 2 ^ 53 \<Longrightarrow> j \<le> n \<Longrightarrow>
   scale_mantissa n m u = (m * 2 ^ j, u / 2 ^ j)"
proof (induction j arbitrary: n m u)
  case 0
  then show ?case by (cases n) simp_all
next
  case (Suc j)
  obtain n' where n: "n = Suc n'" "j \<le> n'"
    using Suc.prems(3) by (cases n) simp_all
  have pos: "(1::real) \<le> 2 ^ j" by simp
  have "0 < m" using Suc.prems(1)
    by (smt (verit, best) mult_nonpos_nonneg zero_le_power zero_less_power)
  then have "2 * m \<le> 2 * m * 2 ^ j"
    using pos by simp
  then have small: "m < 2 ^ 52"
    using Suc.prems(2) by (simp add: mult.assoc mult.left_commute)
  have "scale_mantissa n' (2 * m) (u / 2) = (2 * m * 2 ^ j, u / 2 / 2 ^ j)"
    by (rule Suc.IH) (use Suc.prems n in \<open>simp_all add: mult.assoc mult.left_commute\<close>)
  then show ?case
    using small n by (simp add: mult.assoc mult.left_commute)
qed

text \<open>The double of a positive number whose mantissa is reached by \<open>j\<close> doublings.\<close>

lemma to_double_scaled:
  assumes "0 < x" and "2 ^ 52 \<le> x * 2 ^ j" and "x * 2 ^ j < 2 ^ 53" and "j \<le> 1074"
  shows "to_double x = of_int (round_half_even (x * 2 ^ j)) / 2 ^ j"
  using assms scale_mantissa_up [OF assms(2,3,4), of 1]
  by (simp add: to_double_def)

lemma round_half_even_ge:
  "of_int n \<le> r \<Longrightarrow> n \<le> round_half_even r"
proof -
  assume "of_int n \<le> r"
  then have "n \<le> \<lfloor>r\<rfloor>" by (simp add: le_floor_iff)
  then show ?thesis by (simp add: round_half_even_def Let_def)
qed

lemma scale_mantissa_nonneg:
  "scale_mantissa n m u = (m', u') \<Longrightarrow> 0 \<le> m \<Longrightarrow> 0 \<le> u \<Longrightarrow> 0 \<le> m' \<and> 0 \<le> u'"
  by (induction n m u rule: scale_mantissa.induct) (auto split: if_splits)

text \<open>Rounding keeps a number on its side of 0 and of 1.\<close>

lemma to_double_nonneg: "0 \<le> x \<Longrightarrow> 0 \<le> to_double x"
proof (cases "x = 0")
  case True
  then show ?thesis by (simp add: to_double_def)
next
  case False
  assume "0 \<le> x"
  then have pos: "0 < x" using False by simp
  obtain m u where mu: "scale_mantissa 1074 \<bar>x\<bar> 1 = (m, u)"
    by (cases "scale_mantissa 1074 \<bar>x\<bar> 1")
  have "0 \<le> m \<and> 0 \<le> u"
    by (rule scale_mantissa_nonneg [OF mu]) simp_all
  moreover have "0 \<le> round_half_even m" if "0 \<le> m"
    using round_half_even_ge [of 0 m] that by simp
  ultimately show ?thesis
    using pos mu by (simp add: to_double_def)
qed

lemma scale_mantissa_small:
  "scale_mantissa n m u = (m', u') \<Longrightarrow> m < 2 ^ 53 \<Longrightarrow> u = 1 / 2 ^ j \<Longrightarrow> 2 ^ j \<le> m \<Longrightarrow>
   \<exists>k. u' = 1 / 2 ^ k \<and> 2 ^ k \<le> m'"
proof (induction n arbitrary: m u j)
  case 0
  then show ?case by auto
next
  case (Suc n)
  show ?case
  proof (cases "m < 2 ^ 52")
    case True
    then have run: "scale_mantissa n (2 * m) (u / 2) = (m', u')"
      using Suc.prems(1) by simp
    show ?thesis
      by (rule Suc.IH [OF run, of "Suc j"]) (use True Suc.prems in simp_all)
  next
    case False
    then have "m' = m" "u' = u"
      using Suc.prems(1,2) by simp_all
    then show ?thesis using Suc.prems(3,4) by blast
  qed
qed

lemma scale_mantissa_large:
  "scale_mantissa n m u = (m', u') \<Longrightarrow> 2 ^ 52 \<le> m \<Longrightarrow> 1 \<le> u \<Longrightarrow> 1 \<le> m' \<and> 1 \<le> u'"
proof (induction n arbitrary: m u)
  case 0
  then show ?case by auto
next
  case (Suc n)
  show ?case
  proof (cases "2 ^ 53 \<le> m")
    case True
    then have run: "scale_mantissa n (m / 2) (2 * u) = (m', u')"
      using Suc.prems(1,2) by simp
    show ?thesis
      by (rule Suc.IH [OF run]) (use True Suc.prems in simp_all)
  next
    case False
    then have "m' = m" "u' = u"
      using Suc.prems(1,2) by simp_all
    then show ?thesis using Suc.prems(2,3) by simp
  qed
qed

lemma to_double_ge_1: "1 \<le> x \<Longrightarrow> 1 \<le> to_double x"
proof -
  assume x: "1 \<le> x"
  obtain m u where mu: "scale_mantissa 1074 \<bar>x\<bar> 1 = (m, u)"
    by (cases "scale_mantissa 1074 \<bar>x\<bar> 1")
  have res: "to_double x = of_int (round_half_even m) * u"
    using x mu by (simp add: to_double_def)
  show ?thesis
  proof (cases "x < 2 ^ 53")
    case True
    obtain k where k: "u = 1 / 2 ^ k" "2 ^ k \<le> m"
      using scale_mantissa_small [OF mu, of 0] True x by auto
    have "of_int (2 ^ k) \<le> m" using k(2) by simp
    then have "2 ^ k \<le> round_half_even m"
      by (rule round_half_even_ge)
    then have "(2::real) ^ k \<le> of_int (round_half_even m)"
      by (metis of_int_le_iff of_int_numeral of_int_power)
    then show ?thesis
      unfolding res k(1) by (simp add: field_simps)
  next
    case False
    then have "1 \<le> m \<and> 1 \<le> u"
      using scale_mantissa_large [OF mu] x by simp
    moreover have "1 \<le> round_half_even m" if "1 \<le> m"
      using round_half_even_ge [of 1 m] that by simp
    ultimately have big: "1 \<le> real_of_int (round_half_even m)" "1 \<le> u"
      by simp_all
    have "1 * 1 \<le> real_of_int (round_half_even m) * u"
      by (rule mult_mono [OF big]) (use big in simp_all)
    then show ?thesis
      unfolding res by simp
  qed
qed

text \<open>Some doubles: 0, 1 and 100 are doubles, the four literals of the matcher are not.\<close>

lemma to_double_0: "to_double 0 = 0"
  by (simp add: to_double_def)

lemma to_double_1: "to_double 1 = 1"
  by (simp add: to_double_scaled [where j = 52] round_half_even_def)

lemma to_double_100: "to_double 100 = 100"
  by (simp add: to_double_scaled [where j = 46] round_half_even_def)

lemma double_literals:
  "to_double 0.1 = 3602879701896397 / 36028797018963968"
  "to_double 0.3 = 5404319552844595 / 18014398509481984"
  "to_double 0.7 = 3152519739159347 / 4503599627370496"
  "to_double 0.9 = 8106479329266893 / 9007199254740992"
  by (simp_all add: to_double_scaled [where j = 56] to_double_scaled [where j = 54]
      to_double_scaled [where j = 53] round_half_even_def)

section \<open>Claims about pricing\<close>

text \<open>
  C7.  The claim gives the discount the range 0 to 100 for every record.  The formula and
  the lower bound hold for every record whose prices convert; the upper bound holds when
  the current price is not negative.
\<close>

theorem extract_pricing_discount:
  assumes "extract_pricing L raw = Inr pd"
  shows "pd_discount pd =
           (if pd_original_price pd \<le> pd_current_price pd \<or> pd_original_price pd \<le> 0 then 0
            else (pd_original_price pd - pd_current_price pd) / pd_original_price pd * 100)
         \<and> 0 \<le> pd_discount pd
         \<and> (0 \<le> pd_current_price pd \<longrightarrow> pd_discount pd \<le> 100)"
proof -
  obtain c where c: "py_float L (dict_get (rp_price raw) (PNum 0)) = Inr c"
    using assms by (auto simp: extract_pricing_def split: sum.splits)
  obtain orig where orig: "py_float L (dict_get (rp_original_price raw) (PNum c)) = Inr orig"
    using assms c by (auto simp: extract_pricing_def split: sum.splits)
  have pd: "pd_current_price pd = c" "pd_original_price pd = orig"
    "pd_discount pd = (if orig > c \<and> orig > 0 then ((orig - c) / orig) * 100 else 0)"
    using assms c orig by (auto simp: extract_pricing_def)
  have formula: "pd_discount pd = (if orig \<le> c \<or> orig \<le> 0 then 0 else (orig - c) / orig * 100)"
    using pd(3) by auto
  have nonneg: "0 \<le> pd_discount pd"
    using pd(3) by auto
  have upper: "pd_discount pd \<le> 100" if "0 \<le> c"
  proof (cases "orig > c \<and> orig > 0")
    case True
    have eq: "pd_discount pd = ((orig - c) / orig) * 100"
      unfolding pd(3) by (rule if_P [OF True])
    have "(orig - c) / orig \<le> 1"
      using True that by (simp add: field_simps)
    then have "((orig - c) / orig) * 100 \<le> 1 * 100"
      by (rule mult_right_mono) simp
    then have "((orig - c) / orig) * 100 \<le> 100"
      by (simp only: mult_1)
    then show ?thesis
      unfolding eq .
  next
    case False
    have "pd_discount pd = 0"
      unfolding pd(3) by (rule if_not_P [OF False])
    then show ?thesis
      by simp
  qed
  show ?thesis
    using formula nonneg upper pd(1,2) by simp
qed

text \<open>A record at 80 with an original price of 100 has a discount of 20.\<close>

theorem extract_pricing_discount_witness:
  "extract_pricing ascii_lib
     (empty_record\<lparr> rp_price := Some (PNum 80), rp_original_price := Some (PNum 100) \<rparr>)
     = Inr \<lparr> pd_current_price = 80, pd_original_price = 100, pd_discount = 20 \<rparr>
   \<and> (20::real) = (100 - 80) / 100 * 100 \<and> (0::real) \<le> 20 \<and> (20::real) \<le> 100"
proof -
  let ?raw = "empty_record\<lparr> rp_price := Some (PNum 80), rp_original_price := Some (PNum 100) \<rparr>"
  let ?pd = "\<lparr> pd_current_price = 80, pd_original_price = 100, pd_discount = 20 \<rparr>"
  have run: "extract_pricing ascii_lib ?raw = Inr ?pd"
    by (simp add: extract_pricing_def dict_get_def empty_record_def)
  show ?thesis
    using run extract_pricing_discount [OF run] by simp
qed

text \<open>
  The claim as stated fails: a record at \<open>-5\<close> with an original price of 10 is processed
  and gets a discount of 150.
\<close>

theorem extract_pricing_discount_counterexample:
  "extract_pricing ascii_lib
     (empty_record\<lparr> rp_price := Some (PNum (- 5)), rp_original_price := Some (PNum 10) \<rparr>)
     = Inr \<lparr> pd_current_price = - 5, pd_original_price = 10, pd_discount = 150 \<rparr>
   \<and> \<not> (150::real) \<le> 100"
  by (simp add: extract_pricing_def dict_get_def empty_record_def)




section \<open>Claims about the upsert\<close>

lemma insert_history_tags:
  "map (\<lambda>h. (ph_product_id h, ph_scrape_session_id h)) (insert_history table hs)
     = map (\<lambda>h. (ph_product_id h, ph_scrape_session_id h)) (table @ hs)"
  by (induction hs arbitrary: table) simp_all

lemma history_tags_flush: "history_tags (flush now d) = history_tags d"
  by (simp add: history_tags_def flush_def insert_history_tags)

lemma process_single_product_cases:
  assumes "process_single_product L self now d raw = (Inr (Some product), d')"
  obtains (update) platform pd existing where
      "platform_cache self (str_lower L (dict_get (rp_platform raw) [])) = Some platform"
      "extract_pricing L raw = Inr pd"
      "find (same_key platform raw) (products d) = Some existing"
      "product = update_existing now (clean_text L (dict_get (rp_name raw) []))
                   (normalize_name L (clean_text L (dict_get (rp_name raw) []))) pd raw existing"
      "d' = add_history (new_price_history self now product platform pd raw)
              (d\<lparr> products := update_first (same_key platform raw)
                     (update_existing now (clean_text L (dict_get (rp_name raw) []))
                        (normalize_name L (clean_text L (dict_get (rp_name raw) []))) pd raw)
                     (products d) \<rparr>)"
  | (create) platform pd quality where
      "platform_cache self (str_lower L (dict_get (rp_platform raw) [])) = Some platform"
      "extract_pricing L raw = Inr pd"
      "find (same_key platform raw) (products d) = None"
      "calculate_quality_score raw = Inr quality"
      "product = new_product now (next_id (map p_id (products (flush now d))))
                   (clean_text L (dict_get (rp_name raw) []))
                   (normalize_name L (clean_text L (dict_get (rp_name raw) [])))
                   (fst (extract_brand_model L (clean_text L (dict_get (rp_name raw) []))))
                   (snd (extract_brand_model L (clean_text L (dict_get (rp_name raw) []))))
                   platform
                   (categorize_product L (category_cache self) (clean_text L (dict_get (rp_name raw) [])))
                   pd quality raw"
      "d' = add_history (new_price_history self now product platform pd raw)
              ((flush now d)\<lparr> products := products (flush now d) @ [product] \<rparr>)"
  using assms
  unfolding process_single_product_def Let_def
  by (auto split: if_splits option.splits sum.splits prod.splits)


lemma process_single_product_update:
  assumes "3 \<le> length (clean_text L (dict_get (rp_name raw) []))"
    and "platform_cache self (str_lower L (dict_get (rp_platform raw) [])) = Some platform"
    and "extract_pricing L raw = Inr pd"
    and "find (same_key platform raw) (products d) = Some existing"
  shows "process_single_product L self now d raw =
           (Inr (Some (update_existing now (clean_text L (dict_get (rp_name raw) []))
                   (normalize_name L (clean_text L (dict_get (rp_name raw) []))) pd raw existing)),
            add_history
              (new_price_history self now
                 (update_existing now (clean_text L (dict_get (rp_name raw) []))
                   (normalize_name L (clean_text L (dict_get (rp_name raw) []))) pd raw existing)
                 platform pd raw)
              (d\<lparr> products := update_first (same_key platform raw)
                     (update_existing now (clean_text L (dict_get (rp_name raw) []))
                        (normalize_name L (clean_text L (dict_get (rp_name raw) []))) pd raw)
                     (products d) \<rparr>))"
  using assms
  unfolding process_single_product_def Let_def
  by (auto split: prod.splits)

lemma process_single_product_create:
  assumes "3 \<le> length (clean_text L (dict_get (rp_name raw) []))"
    and "platform_cache self (str_lower L (dict_get (rp_platform raw) [])) = Some platform"
    and "extract_pricing L raw = Inr pd"
    and "find (same_key platform raw) (products d) = None"
    and "calculate_quality_score raw = Inr quality"
    and "product = new_product now (next_id (map p_id (products (flush now d))))
                   (clean_text L (dict_get (rp_name raw) []))
                   (normalize_name L (clean_text L (dict_get (rp_name raw) [])))
                   (fst (extract_brand_model L (clean_text L (dict_get (rp_name raw) []))))
                   (snd (extract_brand_model L (clean_text L (dict_get (rp_name raw) []))))
                   platform
                   (categorize_product L (category_cache self) (clean_text L (dict_get (rp_name raw) [])))
                   pd quality raw"
  shows "process_single_product L self now d raw =
           (Inr (Some product),
            add_history (new_price_history self now product platform pd raw)
              ((flush now d)\<lparr> products := products (flush now d) @ [product] \<rparr>))"
  using assms
  unfolding process_single_product_def Let_def
  by (auto split: prod.splits)

lemma find_update_first:
  "find P xs = Some e \<Longrightarrow> P (f e) \<Longrightarrow> find P (update_first P f xs) = Some (f e)"
  by (induction xs) (auto split: if_splits)

lemma map_update_first:
  "(\<And>x. g (f x) = g x) \<Longrightarrow> map g (update_first P f xs) = map g xs"
  by (induction xs) auto

lemma find_append_new:
  "find P xs = None \<Longrightarrow> P p \<Longrightarrow> find P (xs @ [p]) = Some p"
  by (induction xs) (auto split: if_splits)

lemma find_Some_mem: "find P xs = Some e \<Longrightarrow> e \<in> set xs"
  by (induction xs) (auto split: if_splits)

lemma find_Some_holds: "find P xs = Some e \<Longrightarrow> P e"
  by (induction xs) (auto split: if_splits)

lemma same_key_update_existing:
  "same_key platform raw (update_existing now name nname pd raw' e) = same_key platform raw e"
  by (simp add: same_key_def update_existing_def)

lemma same_key_new_product:
  "same_key platform raw (new_product now i name nname brand model platform category pd quality raw)"
  by (simp add: same_key_def new_product_def)

lemma products_flush: "products (flush now d) = products d"
  by (simp add: flush_def)

text \<open>After an observation the product returned is the row that the query for its key finds.\<close>

lemma process_single_product_stored:
  assumes "process_single_product L self now d raw = (Inr (Some product), d')"
  shows "(\<exists>platform. platform_cache self (str_lower L (dict_get (rp_platform raw) [])) = Some platform
            \<and> find (same_key platform raw) (products d') = Some product)
         \<and> history_tags d' = history_tags d @ [(p_id product, Some (session_id self))]"
  using assms
proof (cases rule: process_single_product_cases)
  case (update platform pd existing)
  let ?upd = "update_existing now (clean_text L (dict_get (rp_name raw) []))
                (normalize_name L (clean_text L (dict_get (rp_name raw) []))) pd raw"
  have key: "same_key platform raw (?upd existing)"
    using find_Some_holds [OF update(3)] by (simp add: same_key_update_existing)
  have "find (same_key platform raw) (update_first (same_key platform raw) ?upd (products d))
          = Some (?upd existing)"
    by (rule find_update_first [where f = ?upd, OF update(3) key])
  then have found: "find (same_key platform raw) (products d') = Some product"
    using update(4,5) by (simp add: add_history_def)
  have tags: "history_tags d' = history_tags d @ [(p_id product, Some (session_id self))]"
    using update(5) by (simp add: add_history_def history_tags_def new_price_history_def)
  show ?thesis
    using update(1) found tags by blast
next
  case (create platform pd quality)
  have key: "same_key platform raw product"
    unfolding create(5) by (rule same_key_new_product)
  have "find (same_key platform raw) (products d @ [product]) = Some product"
    by (rule find_append_new [OF create(3) key])
  then have found: "find (same_key platform raw) (products d') = Some product"
    using create(6) by (simp add: add_history_def products_flush)
  have "history_tags d' = history_tags (flush now d) @ [(p_id product, Some (session_id self))]"
    using create(6) by (simp add: add_history_def history_tags_def new_price_history_def)
  then have tags: "history_tags d' = history_tags d @ [(p_id product, Some (session_id self))]"
    by (simp add: history_tags_flush)
  show ?thesis
    using create(1) found tags by blast
qed

text \<open>
  The upsert keeps the ids of the products distinct, since a new row gets an id above all
  the others, and the products handed to the matcher are rows of the table.
\<close>

lemma fold_max_start: "(b::int) \<le> fold max ids b"
proof (induction ids arbitrary: b)
  case Nil
  show ?case by simp
next
  case (Cons i ids)
  have "b \<le> max i b" by simp
  also have "\<dots> \<le> fold max ids (max i b)" by (rule Cons.IH)
  finally show ?case by simp
qed

lemma fold_max_ge: "x \<in> set ids \<Longrightarrow> x \<le> fold max ids (a::int)"
proof (induction ids arbitrary: a)
  case Nil
  then show ?case by simp
next
  case (Cons i ids)
  show ?case
  proof (cases "x = i")
    case True
    have "i \<le> max i a" by simp
    also have "\<dots> \<le> fold max ids (max i a)" by (rule fold_max_start)
    finally show ?thesis using True by simp
  next
    case False
    then have "x \<in> set ids" using Cons.prems by simp
    then show ?thesis using Cons.IH [of "max i a"] by simp
  qed
qed

lemma next_id_fresh: "next_id ids \<notin> set ids"
proof
  assume "next_id ids \<in> set ids"
  then have "next_id ids \<le> fold max ids 0"
    by (rule fold_max_ge)
  then show False
    by (simp add: next_id_def)
qed

lemma load_products_subset: "set (load_products d ids) \<subseteq> set (products d)"
  by (induction ids) (auto simp: load_products_def List.map_filter_simps dest: find_Some_mem split: option.splits)

lemma process_single_product_distinct:
  assumes "distinct (map p_id (products d))"
    and "process_single_product L self now d raw = (r, d')"
  shows "distinct (map p_id (products d'))"
proof (cases r)
  case (Inl e)
  then have "d' = d"
    using assms(2)
    by (auto simp: process_single_product_def Let_def split: if_splits option.splits sum.splits prod.splits)
  then show ?thesis using assms(1) by simp
next
  case (Inr res)
  show ?thesis
  proof (cases res)
    case None
    then have "d' = d"
      using assms(2) Inr
      by (auto simp: process_single_product_def Let_def split: if_splits option.splits sum.splits prod.splits)
    then show ?thesis using assms(1) by simp
  next
    case (Some product)
    from assms(2) [unfolded Inr Some] show ?thesis
    proof (cases rule: process_single_product_cases)
      case (update platform pd existing)
      have "map p_id (products d') = map p_id (products d)"
        unfolding update(5) by (simp add: add_history_def map_update_first update_existing_def)
      then show ?thesis using assms(1) by simp
    next
      case (create platform pd quality)
      have "p_id product = next_id (map p_id (products d))"
        unfolding create(5) by (simp add: new_product_def products_flush)
      then have "p_id product \<notin> set (map p_id (products d))"
        using next_id_fresh [of "map p_id (products d)"] by simp
      moreover have "products d' = products d @ [product]"
        unfolding create(6) by (simp add: add_history_def products_flush)
      ultimately show ?thesis using assms(1) by simp
    qed
  qed
qed

subsection \<open>The example, step by step\<close>

lemmas ascii_simps = ascii_lib_def ascii_isspace_def ascii_isword_def ascii_isdigit_def
  ascii_lower_def ascii_upper_def ascii_ci_eq_def

lemma round2_third: "round2 (1 / 6 + 1 / 6) = 0.33"
  by (simp add: round2_def round_def)

lemma round2_half: "round2 (1 / 6 + 1 / 6 + 1 / 6) = 0.5"
  by (simp add: round2_def round_def)

lemma quality_rec_pchome: "calculate_quality_score rec_pchome = Inr 0.33"
  using round2_third
  by (simp add: calculate_quality_score_def rec_pchome_def empty_record_def dict_get_def truthy_def asc_def Let_def)

lemma quality_rec_pchome_later: "calculate_quality_score rec_pchome_later = Inr 0.5"
  using round2_half
  by (simp add: calculate_quality_score_def rec_pchome_later_def rec_pchome_def empty_record_def dict_get_def truthy_def asc_def Let_def)

lemma clean_iphone: "clean_text ascii_lib (asc ''iPhone 15'') = asc ''iPhone 15''"
  by (simp add: clean_text_def strip_def collapse_ws_def asc_def ascii_simps)

lemma normalize_iphone: "normalize_name ascii_lib (asc ''iPhone 15'') = asc ''iphone 15''"
  by (simp add: normalize_name_def noise_words_def str_replace_def strip_def collapse_ws_def asc_def ascii_simps)

lemma categorize_iphone: "categorize_product ascii_lib cache (asc ''iPhone 15'') = cache (asc ''Electronics'')"
  by (simp add: categorize_product_def category_keywords_def py_in_def asc_def ascii_simps sublist_code)

lemma brand_model_iphone: "extract_brand_model ascii_lib (asc ''iPhone 15'') = ([], asc ''15'')"
  by (simp add: extract_brand_model_def brands_def py_in_def asc_def ascii_simps sublist_code
      iphone_match_here_def strip_def Let_def)

lemma platform_cache_pchome:
  "platforms d = [pchome, momo, yahoo] \<Longrightarrow>
   platform_cache (build_caches sid d) (str_lower ascii_lib (asc ''pchome'')) = Some pchome"
  by (simp add: build_caches_def pchome_def momo_def yahoo_def asc_def ascii_simps)

lemma platform_cache_momo:
  "platforms d = [pchome, momo, yahoo] \<Longrightarrow>
   platform_cache (build_caches sid d) (str_lower ascii_lib (asc ''momo'')) = Some momo"
  by (simp add: build_caches_def pchome_def momo_def yahoo_def asc_def ascii_simps)

lemma category_cache_electronics:
  "categories d = [electronics] \<Longrightarrow>
   category_cache (build_caches sid d) (asc ''Electronics'') = Some electronics"
  by (simp add: build_caches_def electronics_def asc_def)


lemma rec_pchome_fields:
  "dict_get (rp_name rec_pchome) [] = asc ''iPhone 15''"
  "dict_get (rp_platform rec_pchome) [] = asc ''pchome''"
  "dict_get (rp_name rec_pchome_later) [] = asc ''iPhone 15''"
  "dict_get (rp_platform rec_pchome_later) [] = asc ''pchome''"
  "rp_platform rec_pchome_later = rp_platform rec_pchome"
  "rp_product_id rec_pchome_later = rp_product_id rec_pchome"
  by (simp_all add: rec_pchome_later_def rec_pchome_def empty_record_def dict_get_def)

lemma pricing_rec_pchome:
  "extract_pricing ascii_lib rec_pchome
     = Inr \<lparr> pd_current_price = 100, pd_original_price = 100, pd_discount = 0 \<rparr>"
  by (simp add: extract_pricing_def rec_pchome_def empty_record_def dict_get_def)

lemma pricing_rec_pchome_later:
  "extract_pricing ascii_lib rec_pchome_later
     = Inr \<lparr> pd_current_price = 90, pd_original_price = 100, pd_discount = 10 \<rparr>"
  by (simp add: extract_pricing_def rec_pchome_later_def rec_pchome_def empty_record_def dict_get_def)

lemma length_iphone: "3 \<le> length (asc ''iPhone 15'')"
  by (simp add: asc_def)

lemma flush_shop_db: "flush now shop_db = shop_db"
  by (simp add: flush_def shop_db_def)

lemma first_observation:
  "process_single_product ascii_lib shop_etl 1 shop_db rec_pchome = (Inr (Some first_row), shop_db_1)"
proof -
  have "process_single_product ascii_lib shop_etl 1 shop_db rec_pchome =
          (Inr (Some first_row),
           add_history
             (new_price_history shop_etl 1 first_row pchome
                \<lparr> pd_current_price = 100, pd_original_price = 100, pd_discount = 0 \<rparr> rec_pchome)
             ((flush 1 shop_db)\<lparr> products := products (flush 1 shop_db) @ [first_row] \<rparr>))"
  proof (rule process_single_product_create)
    show "3 \<le> length (clean_text ascii_lib (dict_get (rp_name rec_pchome) []))"
      by (simp add: rec_pchome_fields clean_iphone length_iphone)
    show "platform_cache shop_etl (str_lower ascii_lib (dict_get (rp_platform rec_pchome) [])) = Some pchome"
      unfolding shop_etl_def rec_pchome_fields
      by (rule platform_cache_pchome) (simp add: shop_db_def)
    show "extract_pricing ascii_lib rec_pchome
            = Inr \<lparr> pd_current_price = 100, pd_original_price = 100, pd_discount = 0 \<rparr>"
      by (rule pricing_rec_pchome)
    show "find (same_key pchome rec_pchome) (products shop_db) = None"
      by (simp add: shop_db_def)
    show "calculate_quality_score rec_pchome = Inr 0.33"
      by (rule quality_rec_pchome)
    have "category_cache shop_etl (asc ''Electronics'') = Some electronics"
      unfolding shop_etl_def by (rule category_cache_electronics) (simp add: shop_db_def)
    then show "first_row =
        new_product 1 (next_id (map p_id (products (flush 1 shop_db))))
          (clean_text ascii_lib (dict_get (rp_name rec_pchome) []))
          (normalize_name ascii_lib (clean_text ascii_lib (dict_get (rp_name rec_pchome) [])))
          (fst (extract_brand_model ascii_lib (clean_text ascii_lib (dict_get (rp_name rec_pchome) []))))
          (snd (extract_brand_model ascii_lib (clean_text ascii_lib (dict_get (rp_name rec_pchome) []))))
          pchome
          (categorize_product ascii_lib (category_cache shop_etl)
             (clean_text ascii_lib (dict_get (rp_name rec_pchome) [])))
          \<lparr> pd_current_price = 100, pd_original_price = 100, pd_discount = 0 \<rparr> 0.33 rec_pchome"
      by (simp add: first_row_def rec_pchome_fields clean_iphone normalize_iphone
          brand_model_iphone categorize_iphone products_flush next_id_def shop_db_def)
  qed
  then show ?thesis
    by (simp add: shop_db_1_def flush_shop_db) (simp add: shop_db_def)
qed

lemma first_row_found:
  "find (same_key pchome rec_pchome_later) (products shop_db_1) = Some first_row"
  by (simp add: shop_db_1_def add_history_def same_key_def first_row_def new_product_def
      rec_pchome_later_def rec_pchome_def empty_record_def dict_get_def)

lemma platform_rec_pchome_later:
  "platform_cache shop_etl (str_lower ascii_lib (dict_get (rp_platform rec_pchome_later) [])) = Some pchome"
  unfolding shop_etl_def rec_pchome_fields
  by (rule platform_cache_pchome) (simp add: shop_db_def)

lemma second_observation:
  "process_single_product ascii_lib shop_etl 2 shop_db_1 rec_pchome_later
     = (Inr (Some second_row), shop_db_2)"
proof -
  have "process_single_product ascii_lib shop_etl 2 shop_db_1 rec_pchome_later =
          (Inr (Some (update_existing 2 (clean_text ascii_lib (dict_get (rp_name rec_pchome_later) []))
                   (normalize_name ascii_lib (clean_text ascii_lib (dict_get (rp_name rec_pchome_later) [])))
                   \<lparr> pd_current_price = 90, pd_original_price = 100, pd_discount = 10 \<rparr>
                   rec_pchome_later first_row)),
            add_history
              (new_price_history shop_etl 2
                 (update_existing 2 (clean_text ascii_lib (dict_get (rp_name rec_pchome_later) []))
                   (normalize_name ascii_lib (clean_text ascii_lib (dict_get (rp_name rec_pchome_later) [])))
                   \<lparr> pd_current_price = 90, pd_original_price = 100, pd_discount = 10 \<rparr>
                   rec_pchome_later first_row)
                 pchome \<lparr> pd_current_price = 90, pd_original_price = 100, pd_discount = 10 \<rparr>
                 rec_pchome_later)
              (shop_db_1\<lparr> products := update_first (same_key pchome rec_pchome_later)
                     (update_existing 2 (clean_text ascii_lib (dict_get (rp_name rec_pchome_later) []))
                        (normalize_name ascii_lib (clean_text ascii_lib (dict_get (rp_name rec_pchome_later) [])))
                        \<lparr> pd_current_price = 90, pd_original_price = 100, pd_discount = 10 \<rparr>
                        rec_pchome_later)
                     (products shop_db_1) \<rparr>))"
  proof (rule process_single_product_update)
    show "3 \<le> length (clean_text ascii_lib (dict_get (rp_name rec_pchome_later) []))"
      by (simp add: rec_pchome_fields clean_iphone length_iphone)
    show "platform_cache shop_etl (str_lower ascii_lib (dict_get (rp_platform rec_pchome_later) [])) = Some pchome"
      by (rule platform_rec_pchome_later)
    show "extract_pricing ascii_lib rec_pchome_later
            = Inr \<lparr> pd_current_price = 90, pd_original_price = 100, pd_discount = 10 \<rparr>"
      by (rule pricing_rec_pchome_later)
    show "find (same_key pchome rec_pchome_later) (products shop_db_1) = Some first_row"
      by (rule first_row_found)
  qed
  moreover have "update_first (same_key pchome rec_pchome_later) f (products shop_db_1) = [f first_row]" for f
    using find_Some_holds [OF first_row_found]
    by (simp add: shop_db_1_def add_history_def)
  ultimately show ?thesis
    by (simp add: second_row_def shop_db_2_def rec_pchome_fields clean_iphone normalize_iphone)
qed

text \<open>
  The phone of the first shop observed twice on a store that holds a row for it already:
  both observations are updates.
\<close>

lemma observed_twice:
  assumes "products d = [e]" and "same_key pchome rec_pchome e"
  shows "\<exists>p1 d1 p2 d2.
           process_single_product ascii_lib shop_etl now1 d rec_pchome = (Inr (Some p1), d1)
         \<and> process_single_product ascii_lib shop_etl now2 d1 rec_pchome_later = (Inr (Some p2), d2)"
proof -
  let ?pd = "\<lparr> pd_current_price = 100, pd_original_price = 100, pd_discount = 0 \<rparr>"
  let ?upd = "update_existing now1 (clean_text ascii_lib (dict_get (rp_name rec_pchome) []))
                (normalize_name ascii_lib (clean_text ascii_lib (dict_get (rp_name rec_pchome) []))) ?pd
                rec_pchome"
  let ?d1 = "add_history (new_price_history shop_etl now1 (?upd e) pchome ?pd rec_pchome)
               (d\<lparr> products := update_first (same_key pchome rec_pchome) ?upd (products d) \<rparr>)"
  have found: "find (same_key pchome rec_pchome) (products d) = Some e"
    using assms by simp
  have platform: "platform_cache shop_etl (str_lower ascii_lib (dict_get (rp_platform rec_pchome) [])) = Some pchome"
    unfolding shop_etl_def rec_pchome_fields
    by (rule platform_cache_pchome) (simp add: shop_db_def)
  have first: "process_single_product ascii_lib shop_etl now1 d rec_pchome = (Inr (Some (?upd e)), ?d1)"
  proof (rule process_single_product_update [OF _ platform pricing_rec_pchome found])
    show "3 \<le> length (clean_text ascii_lib (dict_get (rp_name rec_pchome) []))"
      by (simp add: rec_pchome_fields clean_iphone length_iphone)
  qed
  have key: "same_key pchome rec_pchome_later (?upd e)"
    using assms(2) by (simp add: same_key_def update_existing_def rec_pchome_fields(6))
  have "products ?d1 = [?upd e]"
    using assms by (simp add: add_history_def)
  then have found1: "find (same_key pchome rec_pchome_later) (products ?d1) = Some (?upd e)"
    using key by simp
  have "\<exists>p2 d2. process_single_product ascii_lib shop_etl now2 ?d1 rec_pchome_later = (Inr (Some p2), d2)"
  proof (intro exI, rule process_single_product_update [OF _ platform_rec_pchome_later pricing_rec_pchome_later found1])
    show "3 \<le> length (clean_text ascii_lib (dict_get (rp_name rec_pchome_later) []))"
      by (simp add: rec_pchome_fields clean_iphone length_iphone)
  qed
  then show ?thesis
    using first by blast
qed

lemma stored_rows:
  "products shop_legacy = [legacy_row]" "same_key pchome rec_pchome legacy_row"
  "products shop_counted = [counted_row]" "same_key pchome rec_pchome counted_row"
  "history_tags shop_legacy = []" "history_tags shop_counted = []"
  "p_id legacy_row = 1" "p_id counted_row = 1"
  "p_scrape_count legacy_row = None" "p_scrape_count counted_row = Some 5"
  by (simp_all add: shop_legacy_def shop_counted_def legacy_row_def counted_row_def shop_db_def
      history_tags_def same_key_def first_row_def new_product_def pchome_def rec_pchome_def
      empty_record_def dict_get_def)
text \<open>
  C1.  Two records with the same platform and product id, both processed to a product,
  one after the other.  The second observation returns the entry of the first (the same
  id), the list of entries keeps its ids (no entry is added), and the scrape count is the
  count after the first observation, which is a number, plus one.  The first observation
  itself, when the store has an entry for the key already, returns that entry, adds none
  and sets the count to 1 if the entry had no count and to its count plus one otherwise;
  when the store has no entry for the key, the count is 1.  Each observation adds one
  history record for its product, tagged with the id of the session.
\<close>

theorem repeated_observation_updates_in_place:
  assumes first: "process_single_product L self now1 d0 r1 = (Inr (Some p1), d1)"
    and second: "process_single_product L self now2 d1 r2 = (Inr (Some p2), d2)"
    and same: "rp_platform r2 = rp_platform r1" "rp_product_id r2 = rp_product_id r1"
  shows "p_id p2 = p_id p1
       \<and> map p_id (products d2) = map p_id (products d1)
       \<and> p2 \<in> set (products d2)
       \<and> (\<exists>c. p_scrape_count p1 = Some c \<and> p_scrape_count p2 = Some (c + 1))
       \<and> (\<forall>platform existing.
             platform_cache self (str_lower L (dict_get (rp_platform r1) [])) = Some platform
             \<and> find (same_key platform r1) (products d0) = Some existing
             \<longrightarrow> p_id p1 = p_id existing
               \<and> map p_id (products d1) = map p_id (products d0)
               \<and> (p_scrape_count existing = None \<longrightarrow> p_scrape_count p1 = Some 1)
               \<and> (\<forall>c. p_scrape_count existing = Some c \<longrightarrow> p_scrape_count p1 = Some (c + 1)))
       \<and> (\<forall>platform.
             platform_cache self (str_lower L (dict_get (rp_platform r1) [])) = Some platform
             \<and> find (same_key platform r1) (products d0) = None
             \<longrightarrow> p_scrape_count p1 = Some 1)
       \<and> history_tags d1 = history_tags d0 @ [(p_id p1, Some (session_id self))]
       \<and> history_tags d2 = history_tags d1 @ [(p_id p2, Some (session_id self))]"
proof -
  obtain platform where pl: "platform_cache self (str_lower L (dict_get (rp_platform r1) [])) = Some platform"
    and found: "find (same_key platform r1) (products d1) = Some p1"
    using process_single_product_stored [OF first] by blast
  have keys: "same_key platform r2 = same_key platform r1"
    using same(2) by (simp add: same_key_def fun_eq_iff)
  have tags1: "history_tags d1 = history_tags d0 @ [(p_id p1, Some (session_id self))]"
    using process_single_product_stored [OF first] by blast
  have tags2: "history_tags d2 = history_tags d1 @ [(p_id p2, Some (session_id self))]"
    using process_single_product_stored [OF second] by blast
  obtain platform2 where "find (same_key platform2 r2) (products d2) = Some p2"
    using process_single_product_stored [OF second] by blast
  then have stored2: "p2 \<in> set (products d2)"
    by (rule find_Some_mem)
  have before: "p_id p1 = p_id existing
               \<and> map p_id (products d1) = map p_id (products d0)
               \<and> (p_scrape_count existing = None \<longrightarrow> p_scrape_count p1 = Some 1)
               \<and> (\<forall>c. p_scrape_count existing = Some c \<longrightarrow> p_scrape_count p1 = Some (c + 1))"
    if "platform_cache self (str_lower L (dict_get (rp_platform r1) [])) = Some platform'"
      and old: "find (same_key platform' r1) (products d0) = Some existing" for platform' existing
    using first
  proof (cases rule: process_single_product_cases)
    case (update platform'' pd existing')
    have "platform'' = platform'"
      using update(1) that(1) by simp
    then have ex: "existing' = existing"
      using update(3) old by simp
    let ?upd = "update_existing now1 (clean_text L (dict_get (rp_name r1) []))
                  (normalize_name L (clean_text L (dict_get (rp_name r1) []))) pd r1"
    have "map p_id (update_first (same_key platform'' r1) ?upd (products d0)) = map p_id (products d0)"
      by (rule map_update_first) (simp add: update_existing_def)
    then have rows: "map p_id (products d1) = map p_id (products d0)"
      using update(5) by (simp add: add_history_def)
    show ?thesis
      using update(4) ex rows by (simp add: update_existing_def or_zero_def)
  next
    case (create platform'' pd quality)
    have "platform'' = platform'"
      using create(1) that(1) by simp
    then have False
      using create(3) old by simp
    then show ?thesis ..
  qed
  have fresh: "p_scrape_count p1 = Some 1"
    if "platform_cache self (str_lower L (dict_get (rp_platform r1) [])) = Some platform'"
      and none: "find (same_key platform' r1) (products d0) = None" for platform'
    using first
  proof (cases rule: process_single_product_cases)
    case (update platform'' pd existing)
    have "platform'' = platform'"
      using update(1) that(1) by simp
    then have False
      using update(3) none by simp
    then show ?thesis ..
  next
    case (create platform'' pd quality)
    then show ?thesis
      by (simp add: new_product_def)
  qed
  have counted: "\<exists>c. p_scrape_count p1 = Some c"
    using first
  proof (cases rule: process_single_product_cases)
    case (update platform' pd existing)
    then show ?thesis by (simp add: update_existing_def)
  next
    case (create platform' pd quality)
    then show ?thesis by (simp add: new_product_def)
  qed
  from second show ?thesis
  proof (cases rule: process_single_product_cases)
    case (update platform' pd existing)
    have "platform' = platform"
      using update(1) pl same(1) by simp
    then have ex: "existing = p1"
      using update(3) found keys by simp
    let ?upd = "update_existing now2 (clean_text L (dict_get (rp_name r2) []))
                  (normalize_name L (clean_text L (dict_get (rp_name r2) []))) pd r2"
    have id: "p_id p2 = p_id p1"
      using update(4) ex by (simp add: update_existing_def)
    have count: "\<exists>c. p_scrape_count p1 = Some c \<and> p_scrape_count p2 = Some (c + 1)"
      using update(4) ex counted by (auto simp: update_existing_def or_zero_def)
    have "map p_id (update_first (same_key platform' r2) ?upd (products d1)) = map p_id (products d1)"
      by (rule map_update_first) (simp add: update_existing_def)
    then have rows: "map p_id (products d2) = map p_id (products d1)"
      using update(5) by (simp add: add_history_def)
    show ?thesis
      using id rows stored2 count before fresh tags1 tags2 by blast
  next
    case (create platform' pd quality)
    have "platform' = platform"
      using create(1) pl same(1) by simp
    then have False
      using create(3) found keys by simp
    then show ?thesis ..
  qed
qed

text \<open>
  The phone of the first shop observed twice, the second time at a lower price.  On the
  empty store the first observation creates the entry with id 1 and count 1, and the
  second makes the count 2.  On a store whose entry for the phone has no count the counts
  are 1 and then 2; on a store whose entry has the count 5 they are 6 and then 7.  There is
  one entry all along, and each observation adds one history record.
\<close>

theorem repeated_observation_witness:
  "process_single_product ascii_lib shop_etl 1 shop_db rec_pchome = (Inr (Some first_row), shop_db_1)
   \<and> process_single_product ascii_lib shop_etl 2 shop_db_1 rec_pchome_later
       = (Inr (Some second_row), shop_db_2)
   \<and> p_id first_row = 1 \<and> p_id second_row = 1
   \<and> p_scrape_count first_row = Some 1 \<and> p_scrape_count second_row = Some 2
   \<and> map p_id (products shop_db_1) = [1] \<and> map p_id (products shop_db_2) = [1]
   \<and> history_tags shop_db_1 = [(1, Some ''run-1'')]
   \<and> history_tags shop_db_2 = [(1, Some ''run-1''), (1, Some ''run-1'')]
   \<and> p_scrape_count legacy_row = None
   \<and> (\<exists>p1 d1 p2 d2.
         process_single_product ascii_lib shop_etl 1 shop_legacy rec_pchome = (Inr (Some p1), d1)
       \<and> process_single_product ascii_lib shop_etl 2 d1 rec_pchome_later = (Inr (Some p2), d2)
       \<and> p_scrape_count p1 = Some 1 \<and> p_scrape_count p2 = Some 2
       \<and> p_id p1 = 1 \<and> p_id p2 = 1
       \<and> map p_id (products d1) = [1] \<and> map p_id (products d2) = [1]
       \<and> history_tags d2 = [(1, Some ''run-1''), (1, Some ''run-1'')])
   \<and> p_scrape_count counted_row = Some 5
   \<and> (\<exists>p1 d1 p2 d2.
         process_single_product ascii_lib shop_etl 1 shop_counted rec_pchome = (Inr (Some p1), d1)
       \<and> process_single_product ascii_lib shop_etl 2 d1 rec_pchome_later = (Inr (Some p2), d2)
       \<and> p_scrape_count p1 = Some 6 \<and> p_scrape_count p2 = Some 7
       \<and> p_id p1 = 1 \<and> p_id p2 = 1
       \<and> map p_id (products d1) = [1] \<and> map p_id (products d2) = [1]
       \<and> history_tags d2 = [(1, Some ''run-1''), (1, Some ''run-1'')])"
proof -
  have sid: "session_id shop_etl = ''run-1''"
    by (simp add: shop_etl_def build_caches_def)
  have platform: "platform_cache shop_etl (str_lower ascii_lib (dict_get (rp_platform rec_pchome) [])) = Some pchome"
    unfolding shop_etl_def rec_pchome_fields
    by (rule platform_cache_pchome) (simp add: shop_db_def)
  have start: "history_tags shop_db = []" "map p_id (products shop_db_1) = [1]"
      "p_id first_row = 1" "find (same_key pchome rec_pchome) (products shop_db) = None"
    by (simp_all add: history_tags_def shop_db_def shop_db_1_def add_history_def
        first_row_def new_product_def)
  note fresh = repeated_observation_updates_in_place
          [OF first_observation second_observation rec_pchome_fields(5) rec_pchome_fields(6)]
  have count1: "p_scrape_count first_row = Some 1"
    using fresh platform start(4) by blast
  have "\<exists>c. p_scrape_count first_row = Some c \<and> p_scrape_count second_row = Some (c + 1)"
    using fresh by blast
  then have count2: "p_scrape_count second_row = Some 2"
    using count1 by auto
  have rows: "p_id second_row = 1" "map p_id (products shop_db_2) = [1]"
      "history_tags shop_db_1 = [(1, Some ''run-1'')]"
      "history_tags shop_db_2 = [(1, Some ''run-1''), (1, Some ''run-1'')]"
    using fresh start sid by simp_all
  have stored: "\<exists>p1 d1 p2 d2.
         process_single_product ascii_lib shop_etl 1 d rec_pchome = (Inr (Some p1), d1)
       \<and> process_single_product ascii_lib shop_etl 2 d1 rec_pchome_later = (Inr (Some p2), d2)
       \<and> p_scrape_count p1 = Some (c + 1) \<and> p_scrape_count p2 = Some (c + 2)
       \<and> p_id p1 = 1 \<and> p_id p2 = 1
       \<and> map p_id (products d1) = [1] \<and> map p_id (products d2) = [1]
       \<and> history_tags d2 = [(1, Some ''run-1''), (1, Some ''run-1'')]"
    if d: "products d = [e]" "same_key pchome rec_pchome e" "history_tags d = []" "p_id e = 1"
      and c: "p_scrape_count e = None \<and> c = 0 \<or> p_scrape_count e = Some c" for d e c
  proof -
    obtain p1 d1 p2 d2 where
        one: "process_single_product ascii_lib shop_etl 1 d rec_pchome = (Inr (Some p1), d1)"
      and two: "process_single_product ascii_lib shop_etl 2 d1 rec_pchome_later = (Inr (Some p2), d2)"
      using observed_twice [OF d(1,2)] by blast
    note twice = repeated_observation_updates_in_place
          [OF one two rec_pchome_fields(5) rec_pchome_fields(6)]
    have found: "find (same_key pchome rec_pchome) (products d) = Some e"
      using d(1,2) by simp
    have old: "p_id p1 = p_id e \<and> map p_id (products d1) = map p_id (products d)
               \<and> (p_scrape_count e = None \<longrightarrow> p_scrape_count p1 = Some 1)
               \<and> (\<forall>c. p_scrape_count e = Some c \<longrightarrow> p_scrape_count p1 = Some (c + 1))"
      using twice platform found by blast
    then have c1: "p_scrape_count p1 = Some (c + 1)"
      using c by auto
    have "\<exists>c. p_scrape_count p1 = Some c \<and> p_scrape_count p2 = Some (c + 1)"
      using twice by blast
    then have c2: "p_scrape_count p2 = Some (c + 2)"
      using c1 by auto
    have ids: "p_id p1 = 1" "p_id p2 = 1" "map p_id (products d1) = [1]" "map p_id (products d2) = [1]"
      using twice old d(1,4) by simp_all
    have tags: "history_tags d2 = [(1, Some ''run-1''), (1, Some ''run-1'')]"
      using twice ids d(3) sid by simp
    show ?thesis
      by (intro exI conjI) (rule one two c1 c2 ids tags)+
  qed
  have legacy: "\<exists>p1 d1 p2 d2.
         process_single_product ascii_lib shop_etl 1 shop_legacy rec_pchome = (Inr (Some p1), d1)
       \<and> process_single_product ascii_lib shop_etl 2 d1 rec_pchome_later = (Inr (Some p2), d2)
       \<and> p_scrape_count p1 = Some 1 \<and> p_scrape_count p2 = Some 2
       \<and> p_id p1 = 1 \<and> p_id p2 = 1
       \<and> map p_id (products d1) = [1] \<and> map p_id (products d2) = [1]
       \<and> history_tags d2 = [(1, Some ''run-1''), (1, Some ''run-1'')]"
    using stored [of shop_legacy legacy_row 0] stored_rows by simp
  have counted: "\<exists>p1 d1 p2 d2.
         process_single_product ascii_lib shop_etl 1 shop_counted rec_pchome = (Inr (Some p1), d1)
       \<and> process_single_product ascii_lib shop_etl 2 d1 rec_pchome_later = (Inr (Some p2), d2)
       \<and> p_scrape_count p1 = Some 6 \<and> p_scrape_count p2 = Some 7
       \<and> p_id p1 = 1 \<and> p_id p2 = 1
       \<and> map p_id (products d1) = [1] \<and> map p_id (products d2) = [1]
       \<and> history_tags d2 = [(1, Some ''run-1''), (1, Some ''run-1'')]"
    using stored [of shop_counted counted_row 5] stored_rows by simp
  show ?thesis
    using first_observation second_observation start(2,3) count1 count2 rows legacy counted
      stored_rows(9,10)
    by (intro conjI)
qed

text \<open>
  C6.  The claim lets an update refresh the quality score too.  The update branch
  assigns the name, the normalized name, the three price fields, the availability, the two
  URLs, last-scraped and the scrape count (and the store bumps updated-at); the id,
  created-at, the quality score, the description, the brand, the model, the category and
  the key stay as they were.
\<close>

theorem update_refreshes_fields:
  assumes "platform_cache self (str_lower L (dict_get (rp_platform raw) [])) = Some platform"
    and "find (same_key platform raw) (products d) = Some existing"
    and "extract_pricing L raw = Inr pd"
    and "process_single_product L self now d raw = (Inr (Some product), d')"
  shows "p_name product = clean_text L (dict_get (rp_name raw) [])
       \<and> p_normalized_name product = normalize_name L (clean_text L (dict_get (rp_name raw) []))
       \<and> p_current_price product = Some (pd_current_price pd)
       \<and> p_original_price product = Some (pd_original_price pd)
       \<and> p_discount_percentage product = Some (pd_discount pd)
       \<and> p_is_available product = Some (dict_get (rp_availability raw) True)
       \<and> p_url product = Some (dict_get (rp_url raw) [])
       \<and> p_image_url product = Some (dict_get (rp_image_url raw) [])
       \<and> p_last_scraped product = Some now
       \<and> p_updated_at product = Some now
       \<and> p_scrape_count product = Some (or_zero (p_scrape_count existing) + 1)
       \<and> p_id product = p_id existing
       \<and> p_created_at product = p_created_at existing
       \<and> p_data_quality_score product = p_data_quality_score existing
       \<and> p_description product = p_description existing
       \<and> p_brand product = p_brand existing
       \<and> p_model product = p_model existing
       \<and> p_category_id product = p_category_id existing
       \<and> p_platform_id product = p_platform_id existing
       \<and> p_platform_product_id product = p_platform_product_id existing
       \<and> map p_id (products d') = map p_id (products d)
       \<and> find (same_key platform raw) (products d') = Some product"
  using assms(4)
proof (cases rule: process_single_product_cases)
  case (update platform' pd' existing')
  have same: "platform' = platform" "pd' = pd"
    using update(1,2) assms(1,3) by simp_all
  then have ex: "existing' = existing"
    using update(3) assms(2) by simp
  let ?upd = "update_existing now (clean_text L (dict_get (rp_name raw) []))
                (normalize_name L (clean_text L (dict_get (rp_name raw) []))) pd raw"
  have product: "product = ?upd existing"
    using update(4) same ex by simp
  have "map p_id (update_first (same_key platform raw) ?upd (products d)) = map p_id (products d)"
    by (rule map_update_first) (simp add: update_existing_def)
  then have rows: "map p_id (products d') = map p_id (products d)"
    using update(5) same by (simp add: add_history_def)
  have found: "find (same_key platform raw) (products d') = Some product"
    using process_single_product_stored [OF assms(4)] assms(1) by simp
  show ?thesis
    unfolding product using rows found [unfolded product]
    by (simp add: update_existing_def)
next
  case (create platform' pd' quality)
  then have False
    using assms(1,2) by simp
  then show ?thesis ..
qed

text \<open>
  The second observation of the example: the price fields, the URL, last-scraped and the
  scrape count are those of the later record; the id, created-at and the quality score are
  those of the entry.
\<close>

theorem update_refreshes_fields_witness:
  "process_single_product ascii_lib shop_etl 2 shop_db_1 rec_pchome_later
     = (Inr (Some second_row), shop_db_2)
   \<and> find (same_key pchome rec_pchome_later) (products shop_db_1) = Some first_row
   \<and> p_current_price first_row = Some 100 \<and> p_current_price second_row = Some 90
   \<and> p_discount_percentage second_row = Some 10
   \<and> p_url second_row = Some (asc ''https://24h.pchome.com.tw/prod/A1'')
   \<and> p_last_scraped second_row = Some 2
   \<and> p_scrape_count second_row = Some 2
   \<and> p_id second_row = 1 \<and> p_id first_row = 1
   \<and> p_created_at second_row = Some 1
   \<and> p_data_quality_score second_row = Some 0.33
   \<and> map p_id (products shop_db_2) = [1]"
proof -
  have fields: "p_current_price first_row = Some 100" "p_id first_row = 1"
      "p_created_at first_row = Some 1" "p_data_quality_score first_row = Some 0.33"
      "p_scrape_count first_row = Some 1" "map p_id (products shop_db_1) = [1]"
    by (simp_all add: first_row_def new_product_def shop_db_1_def add_history_def)
  have later: "dict_get (rp_url rec_pchome_later) [] = asc ''https://24h.pchome.com.tw/prod/A1''"
    by (simp add: rec_pchome_later_def dict_get_def)
  show ?thesis
    using update_refreshes_fields
            [OF platform_rec_pchome_later first_row_found pricing_rec_pchome_later second_observation]
      second_observation first_row_found fields later
    by (simp add: or_zero_def)
qed

text \<open>
  The claim as stated fails on the quality score: the later record scores 0.5, and the
  entry keeps the 0.33 of its creation.
\<close>

theorem update_refreshes_fields_counterexample:
  "process_single_product ascii_lib shop_etl 2 shop_db_1 rec_pchome_later
     = (Inr (Some second_row), shop_db_2)
   \<and> find (same_key pchome rec_pchome_later) (products shop_db_1) = Some first_row
   \<and> calculate_quality_score rec_pchome_later = Inr 0.5
   \<and> p_data_quality_score second_row = Some 0.33
   \<and> p_data_quality_score second_row \<noteq> Some 0.5"
  using second_observation first_row_found quality_rec_pchome_later
  by (simp add: second_row_def update_existing_def first_row_def new_product_def)

section \<open>Claims about the matcher\<close>

lemma existing_match_None:
  "existing_match d a b = None \<longleftrightarrow>
     \<not> list_ex (\<lambda>m. (pm_product_a_id m = p_id a \<and> pm_product_b_id m = p_id b) \<or>
                     (pm_product_a_id m = p_id b \<and> pm_product_b_id m = p_id a)) (product_matches d)"
  by (auto simp: existing_match_def find_None_iff list_ex_iff)

lemma match_pair_eq:
  "match_pair L a b d = d\<lparr> pending_matches := pending_matches d @ edges_of_pair L (product_matches d) a b \<rparr>"
proof (cases "existing_match d a b")
  case None
  then show ?thesis
    using existing_match_None [of d a b]
    by (simp add: match_pair_def edges_of_pair_def Let_def)
next
  case (Some m)
  then show ?thesis
    using existing_match_None [of d a b]
    by (simp add: match_pair_def edges_of_pair_def Let_def)
qed

lemma fold_match_pair_eq:
  "fold (match_pair L a) rest d =
     d\<lparr> pending_matches := pending_matches d @ concat (map (edges_of_pair L (product_matches d) a) rest) \<rparr>"
proof (induction rest arbitrary: d)
  case Nil
  show ?case by simp
next
  case (Cons b rest)
  let ?d1 = "match_pair L a b d"
  have "fold (match_pair L a) (b # rest) d = fold (match_pair L a) rest ?d1"
    by simp
  also have "\<dots> = ?d1\<lparr> pending_matches := pending_matches ?d1 @
                      concat (map (edges_of_pair L (product_matches ?d1) a) rest) \<rparr>"
    by (rule Cons.IH)
  also have "\<dots> = d\<lparr> pending_matches := pending_matches d @
                      concat (map (edges_of_pair L (product_matches d) a) (b # rest)) \<rparr>"
    by (simp add: match_pair_eq)
  finally show ?case .
qed

lemma find_product_matches_eq:
  "find_product_matches L d ps =
     d\<lparr> pending_matches := pending_matches d @ edges_of_run L (product_matches d) ps \<rparr>"
proof (induction ps arbitrary: d)
  case Nil
  show ?case by simp
next
  case (Cons a rest)
  let ?d1 = "fold (match_pair L a) rest d"
  have "find_product_matches L d (a # rest) = find_product_matches L ?d1 rest"
    by simp
  also have "\<dots> = ?d1\<lparr> pending_matches := pending_matches ?d1 @
                      edges_of_run L (product_matches ?d1) rest \<rparr>"
    by (rule Cons.IH)
  also have "\<dots> = d\<lparr> pending_matches := pending_matches d @
                      edges_of_run L (product_matches d) (a # rest) \<rparr>"
    by (simp add: fold_match_pair_eq)
  finally show ?case .
qed

lemma created_edges_eq: "created_edges L d ps = edges_of_run L (product_matches d) ps"
  by (simp add: created_edges_def find_product_matches_eq)

lemma insert_matches_append:
  "\<exists>new. insert_matches now table ms = table @ new \<and> map pair_of new = map pair_of ms"
proof (induction ms arbitrary: table)
  case Nil
  show ?case by simp
next
  case (Cons m ms)
  let ?row = "m\<lparr> pm_id := Some (next_id (List.map_filter pm_id table)),
                  pm_is_verified := col_default (pm_is_verified m) False,
                  pm_is_active := col_default (pm_is_active m) True,
                  pm_created_at := col_default (pm_created_at m) now \<rparr>"
  obtain new where new: "insert_matches now (table @ [?row]) ms = (table @ [?row]) @ new"
      "map pair_of new = map pair_of ms"
    using Cons.IH [of "table @ [?row]"] by blast
  have "insert_matches now table (m # ms) = table @ (?row # new)"
    using new(1) by simp
  moreover have "map pair_of (?row # new) = map pair_of (m # ms)"
    using new(2) by (simp add: pair_of_def)
  ultimately show ?case by blast
qed

lemma edges_of_pair_pairs:
  "set (map pair_of (edges_of_pair L table a b)) \<subseteq> {(p_id a, p_id b)}"
  by (auto simp: edges_of_pair_def pair_of_def new_match_def)

lemma linked_iff:
  "list_ex (\<lambda>m. (pm_product_a_id m = x \<and> pm_product_b_id m = y) \<or>
                 (pm_product_a_id m = y \<and> pm_product_b_id m = x)) table
   \<longleftrightarrow> (x, y) \<in> set (map pair_of table) \<or> (y, x) \<in> set (map pair_of table)"
  by (auto simp: list_ex_iff pair_of_def image_iff)

lemma edges_of_pair_covered:
  assumes "set (map pair_of table) \<subseteq> set (map pair_of table')"
    and "set (map pair_of (edges_of_pair L table a b)) \<subseteq> set (map pair_of table')"
  shows "edges_of_pair L table' a b = []"
proof (cases "p_platform_id a \<noteq> p_platform_id b \<and> calculate_similarity L a b \<ge> to_double 0.7")
  case False
  then show ?thesis by (auto simp: edges_of_pair_def)
next
  case True
  have "(p_id a, p_id b) \<in> set (map pair_of table') \<or> (p_id b, p_id a) \<in> set (map pair_of table')"
  proof (cases "(p_id a, p_id b) \<in> set (map pair_of table) \<or> (p_id b, p_id a) \<in> set (map pair_of table)")
    case True
    then show ?thesis using assms(1) by blast
  next
    case False
    then have "edges_of_pair L table a b = [new_match a b (calculate_similarity L a b)]"
      using True linked_iff [of "p_id a" "p_id b" table] by (simp add: edges_of_pair_def)
    then have "(p_id a, p_id b) \<in> set (map pair_of table')"
      using assms(2) by (simp add: pair_of_def new_match_def)
    then show ?thesis by simp
  qed
  then show ?thesis
    using linked_iff [of "p_id a" "p_id b" table'] by (simp add: edges_of_pair_def)
qed

lemma edges_of_run_covered:
  assumes "set (map pair_of table) \<subseteq> set (map pair_of table')"
    and "set (map pair_of (edges_of_run L table ps)) \<subseteq> set (map pair_of table')"
  shows "edges_of_run L table' ps = []"
  using assms(2)
proof (induction ps)
  case Nil
  show ?case by simp
next
  case (Cons a rest)
  have rest: "edges_of_run L table' rest = []"
    using Cons by simp
  have "edges_of_pair L table' a b = []" if "b \<in> set rest" for b
  proof (rule edges_of_pair_covered [OF assms(1)])
    show "set (map pair_of (edges_of_pair L table a b)) \<subseteq> set (map pair_of table')"
      using Cons.prems that by auto
  qed
  then have "concat (map (edges_of_pair L table' a) rest) = []"
    by simp
  then show ?case
    using rest by simp
qed

text \<open>
  A pair of different platforms that passes the test is linked after the run, by the table
  or by an edge of the run; if it passes the test in both orders, it is linked whichever
  of the two comes first in the list.
\<close>

lemma edges_of_pair_links:
  assumes "p_platform_id a \<noteq> p_platform_id b"
    and "to_double 0.7 \<le> calculate_similarity L a b"
  shows "(p_id a, p_id b) \<in> set (map pair_of (table @ edges_of_pair L table a b))
       \<or> (p_id b, p_id a) \<in> set (map pair_of table)"
proof (cases "(p_id a, p_id b) \<in> set (map pair_of table) \<or> (p_id b, p_id a) \<in> set (map pair_of table)")
  case True
  then show ?thesis by auto
next
  case False
  then have "edges_of_pair L table a b = [new_match a b (calculate_similarity L a b)]"
    using assms linked_iff [of "p_id a" "p_id b" table] by (simp add: edges_of_pair_def)
  then show ?thesis
    by (simp add: pair_of_def new_match_def)
qed

lemma edges_of_run_links:
  assumes "a \<in> set ps" and "b \<in> set ps"
    and "p_platform_id a \<noteq> p_platform_id b"
    and "to_double 0.7 \<le> calculate_similarity L a b"
    and "to_double 0.7 \<le> calculate_similarity L b a"
  shows "(p_id a, p_id b) \<in> set (map pair_of (table @ edges_of_run L table ps))
       \<or> (p_id b, p_id a) \<in> set (map pair_of (table @ edges_of_run L table ps))"
  using assms(1,2)
proof (induction ps)
  case Nil
  then show ?case by simp
next
  case (Cons x rest)
  consider (first) "a = x" "b \<in> set rest" | (second) "b = x" "a \<in> set rest"
    | (rest) "a \<in> set rest" "b \<in> set rest"
    using Cons.prems assms(3) by auto
  then show ?case
  proof cases
    case first
    have "(p_id a, p_id b) \<in> set (map pair_of (table @ edges_of_pair L table a b))
        \<or> (p_id b, p_id a) \<in> set (map pair_of table)"
      by (rule edges_of_pair_links [OF assms(3,4)])
    then show ?thesis
      using first by auto
  next
    case second
    have "(p_id b, p_id a) \<in> set (map pair_of (table @ edges_of_pair L table b a))
        \<or> (p_id a, p_id b) \<in> set (map pair_of table)"
      by (rule edges_of_pair_links [OF assms(3) [symmetric] assms(5)])
    then show ?thesis
      using second by auto
  next
    case rest
    then show ?thesis
      using Cons.IH by auto
  qed
qed

text \<open>A run adds nothing when every pair of its list that passes the test is linked by the table.\<close>

lemma edges_of_run_linked:
  assumes "\<And>a b. a \<in> set ps \<Longrightarrow> b \<in> set ps \<Longrightarrow> p_platform_id a \<noteq> p_platform_id b \<Longrightarrow>
             to_double 0.7 \<le> calculate_similarity L a b \<Longrightarrow>
             (p_id a, p_id b) \<in> set (map pair_of table) \<or> (p_id b, p_id a) \<in> set (map pair_of table)"
  shows "edges_of_run L table ps = []"
  using assms
proof (induction ps)
  case Nil
  show ?case by simp
next
  case (Cons a rest)
  have rest: "edges_of_run L table rest = []"
    by (rule Cons.IH) (use Cons.prems in auto)
  have "edges_of_pair L table a b = []" if "b \<in> set rest" for b
  proof (cases "p_platform_id a \<noteq> p_platform_id b \<and> to_double 0.7 \<le> calculate_similarity L a b")
    case True
    then have "(p_id a, p_id b) \<in> set (map pair_of table) \<or> (p_id b, p_id a) \<in> set (map pair_of table)"
      using Cons.prems [of a b] that by simp
    then show ?thesis
      using linked_iff [of "p_id a" "p_id b" table] by (simp add: edges_of_pair_def)
  next
    case False
    then show ?thesis by (auto simp: edges_of_pair_def)
  qed
  then have "concat (map (edges_of_pair L table a) rest) = []"
    by simp
  then show ?case
    using rest by simp
qed

text \<open>An edge that a run adds is for a pair that the table links in neither order.\<close>

lemma edges_of_run_fresh:
  assumes "m \<in> set (edges_of_run L table ps)"
  shows "pair_of m \<notin> set (map pair_of table) \<and> prod.swap (pair_of m) \<notin> set (map pair_of table)"
  using assms
proof (induction ps)
  case Nil
  then show ?case by simp
next
  case (Cons a rest)
  show ?case
  proof (cases "m \<in> set (edges_of_run L table rest)")
    case True
    then show ?thesis by (rule Cons.IH)
  next
    case False
    then obtain b where b: "m \<in> set (edges_of_pair L table a b)"
      using Cons.prems by auto
    then have m: "m = new_match a b (calculate_similarity L a b)"
      and free: "\<not> list_ex (\<lambda>m. (pm_product_a_id m = p_id a \<and> pm_product_b_id m = p_id b) \<or>
                           (pm_product_a_id m = p_id b \<and> pm_product_b_id m = p_id a)) table"
      by (auto simp: edges_of_pair_def split: if_splits)
    have "pair_of m = (p_id a, p_id b)"
      using m by (simp add: pair_of_def new_match_def)
    then show ?thesis
      using free linked_iff [of "p_id a" "p_id b" table] by simp
  qed
qed

subsection \<open>The similarity score\<close>

lemma price_ratio:
  fixes x y :: real
  assumes "0 < max x y"
  shows "1 - \<bar>x - y\<bar> / max x y = min x y / max x y"
proof (cases "x \<le> y")
  case True
  then have "0 < y" using assms by simp
  then show ?thesis using True by (simp add: field_simps)
next
  case False
  then have "0 < x" using assms by simp
  then show ?thesis using False by (simp add: field_simps)
qed

lemma brand_boost:
  "(case (ba, bb) of
      (Some brand_a, Some brand_b) \<Rightarrow>
        if brand_a \<noteq> [] \<and> brand_b \<noteq> [] \<and> str_lower L brand_a = str_lower L brand_b
        then to_double 0.3 else 0
    | _ \<Rightarrow> 0)
   = (if (\<exists>x y. ba = Some x \<and> bb = Some y \<and> x \<noteq> [] \<and> y \<noteq> [] \<and> str_lower L x = str_lower L y)
      then to_double 0.3 else 0)"
  by (cases ba; cases bb) auto

lemma price_boost:
  fixes pa pb :: "real option"
  shows "(case (pa, pb) of
      (Some price_a, Some price_b) \<Rightarrow>
        if price_a \<noteq> 0 \<and> price_b \<noteq> 0
        then (if max price_a price_b > 0
              then (if float_sub 1 (float_div \<bar>float_sub price_a price_b\<bar> (max price_a price_b))
                       > to_double 0.7
                    then to_double 0.1 else 0)
              else 0)
        else 0
    | _ \<Rightarrow> 0)
   = (if (\<exists>x y. pa = Some x \<and> pb = Some y \<and> x \<noteq> 0 \<and> y \<noteq> 0 \<and> 0 < max x y
              \<and> to_double 0.7 < float_sub 1 (float_div \<bar>float_sub x y\<bar> (max x y)))
      then to_double 0.1 else 0)"
  by (cases pa; cases pb) auto

lemma calculate_similarity_formula:
  "calculate_similarity L a b =
     min (float_add
            (float_add (seq_ratio L (p_normalized_name a) (p_normalized_name b))
               (if (\<exists>x y. p_brand a = Some x \<and> p_brand b = Some y \<and> x \<noteq> [] \<and> y \<noteq> []
                       \<and> str_lower L x = str_lower L y) then to_double 0.3 else 0))
            (if (\<exists>x y. p_current_price a = Some x \<and> p_current_price b = Some y \<and> x \<noteq> 0 \<and> y \<noteq> 0
                    \<and> 0 < max x y
                    \<and> to_double 0.7 < float_sub 1 (float_div \<bar>float_sub x y\<bar> (max x y)))
             then to_double 0.1 else 0)) 1"
  unfolding calculate_similarity_def Let_def
  by (simp only: brand_boost price_boost)

text \<open>The sum of a ratio and two boosts is not negative, and is at least 1 when the ratio is 1.\<close>

lemma float_sum_bounds:
  assumes "brand = to_double 0.3 \<or> brand = 0" and "price = to_double 0.1 \<or> price = 0"
  shows "0 \<le> name \<Longrightarrow> 0 \<le> float_add (float_add name brand) price"
    and "1 \<le> name \<Longrightarrow> 1 \<le> float_add (float_add name brand) price"
proof -
  have boosts: "0 \<le> brand" "0 \<le> price"
    using assms to_double_nonneg [of "0.3"] to_double_nonneg [of "0.1"] by auto
  show "0 \<le> float_add (float_add name brand) price" if "0 \<le> name"
  proof -
    have "0 \<le> float_add name brand"
      unfolding float_add_def using that boosts by (intro to_double_nonneg) simp
    then show ?thesis
      unfolding float_add_def [of _ price] using boosts by (intro to_double_nonneg) simp
  qed
  show "1 \<le> float_add (float_add name brand) price" if "1 \<le> name"
  proof -
    have "1 \<le> float_add name brand"
      unfolding float_add_def using that boosts by (intro to_double_ge_1) simp
    then show ?thesis
      unfolding float_add_def [of _ price] using boosts by (intro to_double_ge_1) simp
  qed
qed

lemma calculate_similarity_sum:
  "\<exists>brand price.
     calculate_similarity L a b =
       min (float_add (float_add (seq_ratio L (p_normalized_name a) (p_normalized_name b)) brand) price) 1
     \<and> (brand = to_double 0.3 \<or> brand = 0) \<and> (price = to_double 0.1 \<or> price = 0)"
proof -
  let ?brand = "if (\<exists>x y. p_brand a = Some x \<and> p_brand b = Some y \<and> x \<noteq> [] \<and> y \<noteq> []
                       \<and> str_lower L x = str_lower L y) then to_double 0.3 else 0"
  let ?price = "if (\<exists>x y. p_current_price a = Some x \<and> p_current_price b = Some y \<and> x \<noteq> 0 \<and> y \<noteq> 0
                    \<and> 0 < max x y
                    \<and> to_double 0.7 < float_sub 1 (float_div \<bar>float_sub x y\<bar> (max x y)))
             then to_double 0.1 else 0"
  have "calculate_similarity L a b =
       min (float_add (float_add (seq_ratio L (p_normalized_name a) (p_normalized_name b)) ?brand) ?price) 1"
    by (rule calculate_similarity_formula)
  moreover have "?brand = to_double 0.3 \<or> ?brand = 0"
    by (rule if_split [THEN iffD2]) simp
  moreover have "?price = to_double 0.1 \<or> ?price = 0"
    by (rule if_split [THEN iffD2]) simp
  ultimately show ?thesis
    by (intro exI conjI)
qed

lemma calculate_similarity_range:
  assumes "0 \<le> seq_ratio L (p_normalized_name a) (p_normalized_name b)"
  shows "0 \<le> calculate_similarity L a b \<and> calculate_similarity L a b \<le> 1"
proof -
  obtain brand price where sum: "calculate_similarity L a b =
        min (float_add (float_add (seq_ratio L (p_normalized_name a) (p_normalized_name b)) brand) price) 1"
    and boosts: "brand = to_double 0.3 \<or> brand = 0" "price = to_double 0.1 \<or> price = 0"
    using calculate_similarity_sum [of L a b] by blast
  have "0 \<le> float_add (float_add (seq_ratio L (p_normalized_name a) (p_normalized_name b)) brand) price"
    by (rule float_sum_bounds(1) [OF boosts assms])
  then show ?thesis
    unfolding sum by simp
qed

lemma calculate_similarity_ratio_1:
  assumes "seq_ratio L (p_normalized_name a) (p_normalized_name b) = 1"
  shows "calculate_similarity L a b = 1"
proof -
  obtain brand price where sum: "calculate_similarity L a b =
        min (float_add (float_add (seq_ratio L (p_normalized_name a) (p_normalized_name b)) brand) price) 1"
    and boosts: "brand = to_double 0.3 \<or> brand = 0" "price = to_double 0.1 \<or> price = 0"
    using calculate_similarity_sum [of L a b] by blast
  have "1 \<le> float_add (float_add (seq_ratio L (p_normalized_name a) (p_normalized_name b)) brand) price"
    by (rule float_sum_bounds(2) [OF boosts]) (simp add: assms)
  then show ?thesis
    unfolding sum by simp
qed

lemma threshold_below_1: "to_double 0.7 \<le> 1" "\<not> 1 < to_double 0.9"
  by (simp_all add: double_literals)

subsection \<open>The examples of the matcher, step by step\<close>

lemma process_single_product_create_frame:
  assumes "3 \<le> length (clean_text L (dict_get (rp_name raw) []))"
    and "platform_cache self (str_lower L (dict_get (rp_platform raw) [])) = Some platform"
    and "extract_pricing L raw = Inr pd"
    and "find (same_key platform raw) (products d) = None"
    and "calculate_quality_score raw = Inr quality"
    and "product = new_product now (next_id (map p_id (products d)))
                   (clean_text L (dict_get (rp_name raw) []))
                   (normalize_name L (clean_text L (dict_get (rp_name raw) [])))
                   (fst (extract_brand_model L (clean_text L (dict_get (rp_name raw) []))))
                   (snd (extract_brand_model L (clean_text L (dict_get (rp_name raw) []))))
                   platform
                   (categorize_product L (category_cache self) (clean_text L (dict_get (rp_name raw) [])))
                   pd quality raw"
    and "pending_matches d = []"
  shows "\<exists>d'. process_single_product L self now d raw = (Inr (Some product), d')
           \<and> products d' = products d @ [product]
           \<and> product_matches d' = product_matches d \<and> pending_matches d' = []
           \<and> platforms d' = platforms d \<and> categories d' = categories d
           \<and> scrape_sessions d' = scrape_sessions d"
proof -
  have "process_single_product L self now d raw =
           (Inr (Some product),
            add_history (new_price_history self now product platform pd raw)
              ((flush now d)\<lparr> products := products (flush now d) @ [product] \<rparr>))"
    by (rule process_single_product_create [OF assms(1-5)]) (simp add: assms(6) products_flush)
  then show ?thesis
    using assms(7) by (simp add: add_history_def flush_def)
qed

lemma process_single_product_update_frame:
  assumes "3 \<le> length (clean_text L (dict_get (rp_name raw) []))"
    and "platform_cache self (str_lower L (dict_get (rp_platform raw) [])) = Some platform"
    and "extract_pricing L raw = Inr pd"
    and "find (same_key platform raw) (products d) = Some existing"
    and "product = update_existing now (clean_text L (dict_get (rp_name raw) []))
                   (normalize_name L (clean_text L (dict_get (rp_name raw) []))) pd raw existing"
  shows "\<exists>d'. process_single_product L self now d raw = (Inr (Some product), d')
           \<and> products d' = update_first (same_key platform raw)
                 (update_existing now (clean_text L (dict_get (rp_name raw) []))
                   (normalize_name L (clean_text L (dict_get (rp_name raw) []))) pd raw) (products d)
           \<and> product_matches d' = product_matches d \<and> pending_matches d' = pending_matches d
           \<and> platforms d' = platforms d \<and> categories d' = categories d
           \<and> scrape_sessions d' = scrape_sessions d"
  using process_single_product_update [OF assms(1-4), of now] assms(5)
  by (simp add: add_history_def)

lemma rec_momo_fields:
  "dict_get (rp_name rec_momo) [] = asc ''iPhone 15''"
  "dict_get (rp_platform rec_momo) [] = asc ''momo''"
  by (simp_all add: rec_momo_def empty_record_def dict_get_def)

lemma pricing_rec_momo:
  "extract_pricing ascii_lib rec_momo
     = Inr \<lparr> pd_current_price = 100, pd_original_price = 100, pd_discount = 0 \<rparr>"
  by (simp add: extract_pricing_def rec_momo_def empty_record_def dict_get_def)

lemma quality_rec_momo: "calculate_quality_score rec_momo = Inr 0.33"
  using round2_third
  by (simp add: calculate_quality_score_def rec_momo_def empty_record_def dict_get_def truthy_def asc_def Let_def)

lemma run_rows:
  "p_id first_row = 1" "p_id momo_row = 2" "p_id third_row = 1"
  "same_key pchome rec_pchome first_row" "\<not> same_key momo rec_momo first_row"
  "\<not> same_key pchome rec_pchome momo_row"
  by (simp_all add: first_row_def momo_row_def third_row_def new_product_def update_existing_def
      same_key_def pchome_def momo_def rec_pchome_def rec_momo_def empty_record_def dict_get_def asc_def)

text \<open>The three records of the run, processed on a store that has the platforms and no product.\<close>

lemma process_all_run:
  assumes "platforms d = [pchome, momo, yahoo]" and "categories d = [electronics]"
    and "products d = []" and "pending_matches d = []"
  shows "\<exists>d'. process_all ascii_lib (build_caches sid d) int 1 d run_records = ([1, 2, 1], d')
           \<and> products d' = [third_row, momo_row]
           \<and> product_matches d' = product_matches d \<and> pending_matches d' = []
           \<and> scrape_sessions d' = scrape_sessions d"
proof -
  let ?E = "build_caches sid d"
  have pl1: "platform_cache ?E (str_lower ascii_lib (dict_get (rp_platform rec_pchome) [])) = Some pchome"
    unfolding rec_pchome_fields by (rule platform_cache_pchome [OF assms(1)])
  have pl2: "platform_cache ?E (str_lower ascii_lib (dict_get (rp_platform rec_momo) [])) = Some momo"
    unfolding rec_momo_fields by (rule platform_cache_momo [OF assms(1)])
  have cat: "category_cache ?E (asc ''Electronics'') = Some electronics"
    by (rule category_cache_electronics [OF assms(2)])
  have len1: "3 \<le> length (clean_text ascii_lib (dict_get (rp_name rec_pchome) []))"
    by (simp add: rec_pchome_fields clean_iphone length_iphone)
  have len2: "3 \<le> length (clean_text ascii_lib (dict_get (rp_name rec_momo) []))"
    by (simp add: rec_momo_fields clean_iphone length_iphone)
  obtain d1 where s1: "process_single_product ascii_lib ?E (int 1) d rec_pchome = (Inr (Some first_row), d1)"
    and d1: "products d1 = [first_row]" "product_matches d1 = product_matches d"
      "pending_matches d1 = []" "scrape_sessions d1 = scrape_sessions d"
  proof -
    have "\<exists>d'. process_single_product ascii_lib ?E (int 1) d rec_pchome = (Inr (Some first_row), d')
           \<and> products d' = products d @ [first_row]
           \<and> product_matches d' = product_matches d \<and> pending_matches d' = []
           \<and> platforms d' = platforms d \<and> categories d' = categories d
           \<and> scrape_sessions d' = scrape_sessions d"
      by (rule process_single_product_create_frame [OF len1 pl1 pricing_rec_pchome _ quality_rec_pchome _ assms(4)])
         (simp_all add: assms(3) first_row_def rec_pchome_fields clean_iphone normalize_iphone
            brand_model_iphone categorize_iphone cat next_id_def)
    then show ?thesis using that assms(3) by auto
  qed
  obtain d2 where s2: "process_single_product ascii_lib ?E (int 2) d1 rec_momo = (Inr (Some momo_row), d2)"
    and d2: "products d2 = [first_row, momo_row]" "product_matches d2 = product_matches d"
      "pending_matches d2 = []" "scrape_sessions d2 = scrape_sessions d"
  proof -
    have "\<exists>d'. process_single_product ascii_lib ?E (int 2) d1 rec_momo = (Inr (Some momo_row), d')
           \<and> products d' = products d1 @ [momo_row]
           \<and> product_matches d' = product_matches d1 \<and> pending_matches d' = []
           \<and> platforms d' = platforms d1 \<and> categories d' = categories d1
           \<and> scrape_sessions d' = scrape_sessions d1"
      by (rule process_single_product_create_frame [OF len2 pl2 pricing_rec_momo _ quality_rec_momo _ d1(3)])
         (simp_all add: d1(1) run_rows momo_row_def rec_momo_fields clean_iphone normalize_iphone
            brand_model_iphone categorize_iphone cat next_id_def)
    then show ?thesis using that d1 by auto
  qed
  obtain d3 where s3: "process_single_product ascii_lib ?E (int 3) d2 rec_pchome = (Inr (Some third_row), d3)"
    and d3: "products d3 = [third_row, momo_row]" "product_matches d3 = product_matches d"
      "pending_matches d3 = []" "scrape_sessions d3 = scrape_sessions d"
  proof -
    have "\<exists>d'. process_single_product ascii_lib ?E (int 3) d2 rec_pchome = (Inr (Some third_row), d')
           \<and> products d' = update_first (same_key pchome rec_pchome)
                 (update_existing (int 3) (clean_text ascii_lib (dict_get (rp_name rec_pchome) []))
                   (normalize_name ascii_lib (clean_text ascii_lib (dict_get (rp_name rec_pchome) [])))
                   \<lparr> pd_current_price = 100, pd_original_price = 100, pd_discount = 0 \<rparr> rec_pchome)
                 (products d2)
           \<and> product_matches d' = product_matches d2 \<and> pending_matches d' = pending_matches d2
           \<and> platforms d' = platforms d2 \<and> categories d' = categories d2
           \<and> scrape_sessions d' = scrape_sessions d2"
      by (rule process_single_product_update_frame [OF len1 pl1 pricing_rec_pchome, where existing = first_row])
         (simp_all add: d2(1) run_rows third_row_def rec_pchome_fields clean_iphone normalize_iphone)
    then show ?thesis
      using that d2 run_rows
      by (auto simp: third_row_def rec_pchome_fields clean_iphone normalize_iphone)
  qed
  have "process_all ascii_lib ?E int 1 d run_records = ([1, 2, 1], d3)"
    using s1 s2 s3 by (simp add: run_records_def run_rows)
  then show ?thesis
    using d3 by blast
qed


lemma create_scrape_session_frame:
  assumes "create_scrape_session sid now (open_session store) query rs = (session, d1)"
  shows "platforms d1 = platforms store \<and> categories d1 = categories store
       \<and> products d1 = products store \<and> product_matches d1 = product_matches store
       \<and> pending_matches d1 = []"
  using assms
  by (auto simp: create_scrape_session_def open_session_def flush_def Let_def)

lemma process_scraper_results_run:
  assumes "create_scrape_session sid (clock 0) (open_session store) query rs = (session, d1)"
    and "process_all L (build_caches sid d1) clock 1 d1 rs = (processed, d2)"
  shows "(\<exists>r. fst (process_scraper_results L NoFault clock sid store rs query) = Inr r)
       \<and> products (snd (process_scraper_results L NoFault clock sid store rs query)) = products d2
       \<and> product_matches (snd (process_scraper_results L NoFault clock sid store rs query))
           = insert_matches (clock (Suc (length rs))) (product_matches d2)
               (pending_matches d2 @ edges_of_run L (product_matches d2) (load_products d2 processed))"
  using assms
  by (simp add: process_scraper_results_def Let_def find_product_matches_eq commit_def flush_def)

lemma matching_iphone: "matching_total (asc ''iphone 15'') (asc ''iphone 15'') = 9"
  by code_simp

lemma ratio_iphone: "difflib_ratio (asc ''iphone 15'') (asc ''iphone 15'') = 1"
  unfolding difflib_ratio_def matching_iphone float_div_def
  by (simp add: asc_def to_double_1)

lemma similarity_rows:
  "calculate_similarity ascii_lib third_row momo_row = 1"
  "calculate_similarity ascii_lib momo_row third_row = 1"
  "calculate_similarity ascii_lib first_row momo_row = 1"
  "calculate_similarity ascii_lib momo_row first_row = 1"
  using ratio_iphone
  by (simp_all add: calculate_similarity_ratio_1 third_row_def momo_row_def first_row_def
      update_existing_def new_product_def ascii_lib_def)

lemma platform_rows:
  "p_platform_id first_row = 1" "p_platform_id third_row = 1" "p_platform_id momo_row = 2"
  by (simp_all add: first_row_def third_row_def momo_row_def new_product_def update_existing_def
      pchome_def momo_def)

lemma edges_of_run_repeated:
  "edges_of_run ascii_lib [] [third_row, momo_row, third_row]
     = [new_match third_row momo_row 1, new_match momo_row third_row 1]"
  by (simp add: edges_of_pair_def similarity_rows platform_rows threshold_below_1)

lemma shop_two_edges:
  "edges_of_run ascii_lib (product_matches shop_two) [first_row, momo_row]
     = [new_match first_row momo_row 1]"
  by (simp add: shop_two_def shop_db_def edges_of_pair_def similarity_rows platform_rows
      threshold_below_1)

lemma matching_abc_xyz: "matching_total (asc ''abc'') (asc ''xyz'') = 0"
  by code_simp

lemma ratio_abc_xyz: "difflib_ratio (asc ''abc'') (asc ''xyz'') = 0"
  unfolding difflib_ratio_def matching_abc_xyz float_div_def
  by (simp add: asc_def to_double_0)

lemma ratio_empty: "difflib_ratio [] [] = 1"
  by (simp add: difflib_ratio_def)

lemma shop_matched_blocked:
  "match_pair ascii_lib first_row momo_row shop_matched = shop_matched"
  by (simp add: match_pair_eq edges_of_pair_def shop_matched_def old_edge_def run_rows)

text \<open>
  The names \<open>xy tide\<close> and \<open>xy diet\<close>: after the common start, the first letter of the first
  name that the second name has is matched, and what is left on its two sides is matched
  in turn.  From \<open>tide\<close> that is the \<open>t\<close>, the last letter of \<open>diet\<close>, and nothing more; from
  \<open>diet\<close> it is the \<open>d\<close>, and then the \<open>e\<close>.
\<close>

lemma matching_tide_diet:
  "matching_total (asc ''xy tide'') (asc ''xy diet'') = 4"
  "matching_total (asc ''xy diet'') (asc ''xy tide'') = 5"
  by code_simp+

lemma ratio_tide_diet:
  "difflib_ratio (asc ''xy tide'') (asc ''xy diet'') = 2573485501354569 / 4503599627370496"
  "difflib_ratio (asc ''xy diet'') (asc ''xy tide'') = 6433713753386423 / 9007199254740992"
  unfolding difflib_ratio_def matching_tide_diet float_div_def
  by (simp_all add: asc_def to_double_scaled [where j = 53] round_half_even_def)

lemma price_test_equal: "to_double 0.7 < float_sub 1 (float_div \<bar>float_sub 100 100\<bar> (max 100 100))"
  by (simp add: float_sub_def float_div_def to_double_0 to_double_1 double_literals)

lemma sum_tide_diet:
  "float_add (float_add (2573485501354569 / 4503599627370496) 0) (to_double 0.1)
     = 6047690928183237 / 9007199254740992"
  "float_add (float_add (6433713753386423 / 9007199254740992) 0) (to_double 0.1)
     = 3667216839430261 / 4503599627370496"
  by (simp_all add: float_add_def double_literals to_double_scaled [where j = 53] round_half_even_def)

lemma similarity_tide_diet:
  "calculate_similarity ascii_lib tide_a diet_b = 6047690928183237 / 9007199254740992"
  "calculate_similarity ascii_lib diet_b tide_a = 3667216839430261 / 4503599627370496"
proof -
  have names: "p_normalized_name tide_a = asc ''xy tide''" "p_normalized_name diet_b = asc ''xy diet''"
    by (simp_all add: tide_a_def diet_b_def)
  have brands: "p_brand tide_a = Some []" "p_brand diet_b = Some []"
    by (simp_all add: tide_a_def diet_b_def first_row_def momo_row_def new_product_def)
  have prices: "p_current_price tide_a = Some 100" "p_current_price diet_b = Some 100"
    by (simp_all add: tide_a_def diet_b_def first_row_def momo_row_def new_product_def)
  have ratio: "seq_ratio ascii_lib = difflib_ratio"
    by (simp add: ascii_lib_def)
  have "calculate_similarity ascii_lib tide_a diet_b
          = min (float_add (float_add (2573485501354569 / 4503599627370496) 0) (to_double 0.1)) 1"
    unfolding calculate_similarity_formula names brands prices ratio ratio_tide_diet
    using price_test_equal by simp
  then show "calculate_similarity ascii_lib tide_a diet_b = 6047690928183237 / 9007199254740992"
    unfolding sum_tide_diet by simp
  have "calculate_similarity ascii_lib diet_b tide_a
          = min (float_add (float_add (6433713753386423 / 9007199254740992) 0) (to_double 0.1)) 1"
    unfolding calculate_similarity_formula names brands prices ratio ratio_tide_diet
    using price_test_equal by simp
  then show "calculate_similarity ascii_lib diet_b tide_a = 3667216839430261 / 4503599627370496"
    unfolding sum_tide_diet by simp
qed

lemma tide_rows:
  "p_id tide_a = 1" "p_id diet_b = 2" "p_platform_id tide_a = 1" "p_platform_id diet_b = 2"
  by (simp_all add: tide_a_def diet_b_def run_rows platform_rows)

lemma shop_tide_edges:
  "edges_of_run ascii_lib [] [tide_a, diet_b] = []"
  "edges_of_run ascii_lib [] [diet_b, tide_a]
     = [new_match diet_b tide_a (3667216839430261 / 4503599627370496)]"
  by (simp_all add: edges_of_pair_def similarity_tide_diet tide_rows double_literals)
text \<open>
  C2.  A run of the matcher ends with the commit of \<open>process_scraper_results\<close>.  The claim
  has a second run on the same catalog create nothing.  That holds when the second run
  gets the products in the order of the first, and, whatever the order, when the test of
  the score gives a pair the same answer in both orders: then every pair that passes is
  linked by the table, in one order or the other, and the query finds the edge.  In any
  run, on any store, an edge is created only for a pair that the table links in neither
  order.  The table after the first run starts with the table as it was before, so no
  edge is lost.
\<close>

theorem matcher_rerun_creates_nothing:
  "find_product_matches L (commit now (find_product_matches L d ps)) ps
     = commit now (find_product_matches L d ps)
   \<and> created_edges L (commit now (find_product_matches L d ps)) ps = []
   \<and> ((\<forall>a \<in> set ps. \<forall>b \<in> set ps.
          (to_double 0.7 \<le> calculate_similarity L a b) = (to_double 0.7 \<le> calculate_similarity L b a))
        \<and> set qs \<subseteq> set ps
        \<longrightarrow> find_product_matches L (commit now (find_product_matches L d ps)) qs
              = commit now (find_product_matches L d ps)
          \<and> created_edges L (commit now (find_product_matches L d ps)) qs = [])
   \<and> (\<forall>m \<in> set (created_edges L e rs).
          pair_of m \<notin> set (map pair_of (product_matches e))
          \<and> prod.swap (pair_of m) \<notin> set (map pair_of (product_matches e)))
   \<and> prefix (product_matches d) (product_matches (commit now (find_product_matches L d ps)))"
proof -
  let ?E = "edges_of_run L (product_matches d) ps"
  let ?d1 = "commit now (find_product_matches L d ps)"
  obtain new where new: "insert_matches now (product_matches d) (pending_matches d @ ?E) = product_matches d @ new"
      "map pair_of new = map pair_of (pending_matches d @ ?E)"
    using insert_matches_append by blast
  have table1: "product_matches ?d1 = product_matches d @ new"
    using new(1) by (simp add: commit_def flush_def find_product_matches_eq)
  have pending1: "pending_matches ?d1 = []"
    by (simp add: commit_def flush_def)
  have covered: "set (map pair_of (product_matches d @ ?E)) \<subseteq> set (map pair_of (product_matches ?d1))"
    using table1 new(2) by auto
  have same: "edges_of_run L (product_matches ?d1) ps = []"
  proof (rule edges_of_run_covered)
    show "set (map pair_of (product_matches d)) \<subseteq> set (map pair_of (product_matches ?d1))"
      using table1 by auto
    show "set (map pair_of ?E) \<subseteq> set (map pair_of (product_matches ?d1))"
      using covered by auto
  qed
  have other: "edges_of_run L (product_matches ?d1) qs = []"
    if sym: "\<forall>a \<in> set ps. \<forall>b \<in> set ps.
          (to_double 0.7 \<le> calculate_similarity L a b) = (to_double 0.7 \<le> calculate_similarity L b a)"
      and sub: "set qs \<subseteq> set ps"
  proof (rule edges_of_run_linked)
    fix a b
    assume ab: "a \<in> set qs" "b \<in> set qs" "p_platform_id a \<noteq> p_platform_id b"
      "to_double 0.7 \<le> calculate_similarity L a b"
    then have in_ps: "a \<in> set ps" "b \<in> set ps"
      using sub by auto
    then have "to_double 0.7 \<le> calculate_similarity L b a"
      using sym ab(4) by blast
    then have "(p_id a, p_id b) \<in> set (map pair_of (product_matches d @ ?E))
        \<or> (p_id b, p_id a) \<in> set (map pair_of (product_matches d @ ?E))"
      by (rule edges_of_run_links [OF in_ps ab(3,4)])
    then show "(p_id a, p_id b) \<in> set (map pair_of (product_matches ?d1))
        \<or> (p_id b, p_id a) \<in> set (map pair_of (product_matches ?d1))"
      using covered by blast
  qed
  have unchanged: "find_product_matches L ?d1 xs = ?d1" if "edges_of_run L (product_matches ?d1) xs = []" for xs
    using that pending1 by (simp add: find_product_matches_eq)
  have fresh: "\<forall>m \<in> set (created_edges L e rs).
          pair_of m \<notin> set (map pair_of (product_matches e))
          \<and> prod.swap (pair_of m) \<notin> set (map pair_of (product_matches e))"
    unfolding created_edges_eq by (blast dest: edges_of_run_fresh)
  have kept: "prefix (product_matches d) (product_matches ?d1)"
    using table1 by simp
  show ?thesis
    using same other unchanged fresh kept by (simp add: created_edges_eq)
qed

text \<open>
  The two phones, which score 1 in both orders: the first run creates the edge from the
  first to the second, for a pair that the empty table does not link; the table after the
  commit holds that pair, and a second run creates nothing, in the same order and in the
  other order.
\<close>

theorem matcher_rerun_witness:
  "created_edges ascii_lib shop_two [first_row, momo_row] = [new_match first_row momo_row 1]
   \<and> pair_of (new_match first_row momo_row 1) = (1, 2)
   \<and> (1, 2) \<notin> set (map pair_of (product_matches shop_two))
   \<and> (2, 1) \<notin> set (map pair_of (product_matches shop_two))
   \<and> map pair_of (product_matches (commit 3 (find_product_matches ascii_lib shop_two [first_row, momo_row])))
       = [(1, 2)]
   \<and> find_product_matches ascii_lib
         (commit 3 (find_product_matches ascii_lib shop_two [first_row, momo_row])) [first_row, momo_row]
       = commit 3 (find_product_matches ascii_lib shop_two [first_row, momo_row])
   \<and> created_edges ascii_lib
         (commit 3 (find_product_matches ascii_lib shop_two [first_row, momo_row])) [first_row, momo_row]
       = []
   \<and> calculate_similarity ascii_lib first_row momo_row = calculate_similarity ascii_lib momo_row first_row
   \<and> find_product_matches ascii_lib
         (commit 3 (find_product_matches ascii_lib shop_two [first_row, momo_row])) [momo_row, first_row]
       = commit 3 (find_product_matches ascii_lib shop_two [first_row, momo_row])
   \<and> created_edges ascii_lib
         (commit 3 (find_product_matches ascii_lib shop_two [first_row, momo_row])) [momo_row, first_row]
       = []"
proof -
  have first: "created_edges ascii_lib shop_two [first_row, momo_row] = [new_match first_row momo_row 1]"
    by (simp only: created_edges_eq shop_two_edges)
  have pair: "pair_of (new_match first_row momo_row 1) = (1, 2)"
    by (simp add: pair_of_def new_match_def run_rows)
  have table: "map pair_of (product_matches (commit 3 (find_product_matches ascii_lib shop_two [first_row, momo_row])))
       = [(1, 2)]"
    unfolding find_product_matches_eq shop_two_edges
    by (simp add: commit_def flush_def shop_two_def shop_db_def pair_of_def new_match_def run_rows)
  have sym: "\<forall>a \<in> set [first_row, momo_row]. \<forall>b \<in> set [first_row, momo_row].
          (to_double 0.7 \<le> calculate_similarity ascii_lib a b)
            = (to_double 0.7 \<le> calculate_similarity ascii_lib b a)"
    by (simp add: similarity_rows)
  have sub: "set [momo_row, first_row] \<subseteq> set [first_row, momo_row]"
    by simp
  note rerun = matcher_rerun_creates_nothing [where L = ascii_lib and now = 3 and d = shop_two
      and ps = "[first_row, momo_row]" and qs = "[momo_row, first_row]"
      and e = shop_two and rs = "[first_row, momo_row]"]
  have same: "find_product_matches ascii_lib
         (commit 3 (find_product_matches ascii_lib shop_two [first_row, momo_row])) [first_row, momo_row]
       = commit 3 (find_product_matches ascii_lib shop_two [first_row, momo_row])"
      "created_edges ascii_lib
         (commit 3 (find_product_matches ascii_lib shop_two [first_row, momo_row])) [first_row, momo_row]
       = []"
    using rerun by blast+
  have other: "find_product_matches ascii_lib
         (commit 3 (find_product_matches ascii_lib shop_two [first_row, momo_row])) [momo_row, first_row]
       = commit 3 (find_product_matches ascii_lib shop_two [first_row, momo_row])
     \<and> created_edges ascii_lib
         (commit 3 (find_product_matches ascii_lib shop_two [first_row, momo_row])) [momo_row, first_row]
       = []"
    using rerun [THEN conjunct2, THEN conjunct2, THEN conjunct1] sym sub by blast
  have "pair_of (new_match first_row momo_row 1) \<notin> set (map pair_of (product_matches shop_two))
      \<and> prod.swap (pair_of (new_match first_row momo_row 1)) \<notin> set (map pair_of (product_matches shop_two))"
    using rerun [THEN conjunct2, THEN conjunct2, THEN conjunct2, THEN conjunct1] first by simp
  then have fresh: "(1, 2) \<notin> set (map pair_of (product_matches shop_two))"
      "(2, 1) \<notin> set (map pair_of (product_matches shop_two))"
    unfolding pair by simp_all
  show ?thesis
    using first pair fresh table same other similarity_rows(3,4) by simp
qed

text \<open>
  The claim as stated fails when the second run meets a pair in the other order.  The
  ratio of two names depends on their order: \<open>xy tide\<close> against \<open>xy diet\<close> matches four of
  the seven letters, \<open>xy diet\<close> against \<open>xy tide\<close> five.  With the bonus for the equal prices
  the score is \<open>0.6714285714285714\<close> in the first order, below the threshold, and
  \<open>0.8142857142857143\<close> in the second.  So the first run, over the two rows in the order of
  the store, creates no edge, and a second run on the same catalog, over the same two
  rows in the other order, creates one.
\<close>

theorem matcher_rerun_counterexample:
  "created_edges ascii_lib shop_tide [tide_a, diet_b] = []
   \<and> products (commit 3 (find_product_matches ascii_lib shop_tide [tide_a, diet_b])) = products shop_tide
   \<and> product_matches (commit 3 (find_product_matches ascii_lib shop_tide [tide_a, diet_b])) = []
   \<and> set [diet_b, tide_a] = set [tide_a, diet_b]
   \<and> map pair_of (created_edges ascii_lib
         (commit 3 (find_product_matches ascii_lib shop_tide [tide_a, diet_b])) [diet_b, tide_a])
       = [(2, 1)]
   \<and> calculate_similarity ascii_lib tide_a diet_b = 6047690928183237 / 9007199254740992
   \<and> calculate_similarity ascii_lib diet_b tide_a = 3667216839430261 / 4503599627370496
   \<and> calculate_similarity ascii_lib tide_a diet_b < to_double 0.7
   \<and> to_double 0.7 \<le> calculate_similarity ascii_lib diet_b tide_a"
proof -
  have store: "product_matches shop_tide = []" "pending_matches shop_tide = []"
      "products shop_tide = [tide_a, diet_b]"
    by (simp_all add: shop_tide_def shop_db_def)
  have first: "created_edges ascii_lib shop_tide [tide_a, diet_b] = []"
    unfolding created_edges_eq store by (rule shop_tide_edges)
  have after: "products (commit 3 (find_product_matches ascii_lib shop_tide [tide_a, diet_b])) = products shop_tide"
      "product_matches (commit 3 (find_product_matches ascii_lib shop_tide [tide_a, diet_b])) = []"
    unfolding find_product_matches_eq store shop_tide_edges
    by (simp_all add: commit_def flush_def store)
  have second: "map pair_of (created_edges ascii_lib
         (commit 3 (find_product_matches ascii_lib shop_tide [tide_a, diet_b])) [diet_b, tide_a])
       = [(2, 1)]"
    unfolding created_edges_eq after shop_tide_edges
    by (simp add: pair_of_def new_match_def tide_rows)
  have scores: "calculate_similarity ascii_lib tide_a diet_b < to_double 0.7"
      "to_double 0.7 \<le> calculate_similarity ascii_lib diet_b tide_a"
    by (simp_all add: similarity_tide_diet double_literals)
  show ?thesis
    using first after second scores similarity_tide_diet by auto
qed

text \<open>
  C4.  Every edge that a run of the matcher creates links two entries of different
  platforms: with the ids of the catalog distinct, the entries that carry the two ids of
  the edge have different platform ids.
\<close>

theorem matcher_edges_cross_platform:
  assumes "distinct (map p_id (products d))"
    and "set ps \<subseteq> set (products d)"
    and "m \<in> set (created_edges L d ps)"
    and "x \<in> set (products d)" and "y \<in> set (products d)"
    and "p_id x = pm_product_a_id m" and "p_id y = pm_product_b_id m"
  shows "p_platform_id x \<noteq> p_platform_id y"
proof -
  have run: "m \<in> set (edges_of_run L table ps) \<Longrightarrow>
      \<exists>a \<in> set ps. \<exists>b \<in> set ps. pm_product_a_id m = p_id a \<and> pm_product_b_id m = p_id b
        \<and> p_platform_id a \<noteq> p_platform_id b" for table
  proof (induction ps)
    case Nil
    then show ?case by simp
  next
    case (Cons a rest)
    then show ?case
      by (auto simp: edges_of_pair_def new_match_def split: if_splits)
  qed
  obtain a b where ab: "a \<in> set ps" "b \<in> set ps" "pm_product_a_id m = p_id a"
      "pm_product_b_id m = p_id b" "p_platform_id a \<noteq> p_platform_id b"
    using run [of "product_matches d"] assms(3) by (auto simp: created_edges_eq)
  have "x = a" "y = b"
    using assms(1,2,4,5,6,7) ab(1-4) by (auto simp: distinct_map inj_on_def)
  then show ?thesis
    using ab(5) by simp
qed

text \<open>The edge of the two phones links platform 1 and platform 2.\<close>

theorem matcher_edges_cross_platform_witness:
  "new_match first_row momo_row 1 \<in> set (created_edges ascii_lib shop_two [first_row, momo_row])
   \<and> distinct (map p_id (products shop_two))
   \<and> p_id first_row = pm_product_a_id (new_match first_row momo_row 1)
   \<and> p_id momo_row = pm_product_b_id (new_match first_row momo_row 1)
   \<and> p_platform_id first_row \<noteq> p_platform_id momo_row"
proof -
  have m: "new_match first_row momo_row 1 \<in> set (created_edges ascii_lib shop_two [first_row, momo_row])"
    by (simp only: created_edges_eq shop_two_edges) simp
  have ids: "distinct (map p_id (products shop_two))"
    by (simp add: shop_two_def run_rows)
  have rows: "set [first_row, momo_row] \<subseteq> set (products shop_two)"
      "first_row \<in> set (products shop_two)" "momo_row \<in> set (products shop_two)"
    by (simp_all add: shop_two_def)
  have a: "p_id first_row = pm_product_a_id (new_match first_row momo_row 1)"
    and b: "p_id momo_row = pm_product_b_id (new_match first_row momo_row 1)"
    by (simp_all add: new_match_def)
  show ?thesis
    using matcher_edges_cross_platform [OF ids rows(1) m rows(2) rows(3) a b] m ids a b
    by simp
qed

subsection \<open>The score and the insertion\<close>

lemma price_test_exact:
  fixes x y :: real
  assumes "0 < max x y" and "float_sub x y = x - y"
    and "float_div \<bar>x - y\<bar> (max x y) = \<bar>x - y\<bar> / max x y"
    and "float_sub 1 (\<bar>x - y\<bar> / max x y) = 1 - \<bar>x - y\<bar> / max x y"
  shows "float_sub 1 (float_div \<bar>float_sub x y\<bar> (max x y)) = min x y / max x y"
  by (simp only: assms(2,3,4) price_ratio [OF assms(1)])

lemma matching_near: "matching_total (asc ''abcde'') (asc ''abcxy'') = 3"
  by code_simp

lemma double_three_fifths: "to_double (3 / 5) = 5404319552844595 / 9007199254740992"
  by (simp add: to_double_scaled [where j = 53] round_half_even_def)

lemma ratio_near: "difflib_ratio (asc ''abcde'') (asc ''abcxy'') = to_double 0.6"
  unfolding difflib_ratio_def matching_near float_div_def
  by (simp add: asc_def)

text \<open>
  In doubles \<open>0.6 + 0.3\<close> lies halfway between two doubles and is rounded to the lower
  one, \<open>0.8999999999999999\<close>, which is below the double \<open>0.9\<close>.
\<close>

lemma sum_near:
  "float_add (to_double 0.6) (to_double 0.3) = 2026619832316723 / 2251799813685248"
  "float_add (2026619832316723 / 2251799813685248) 0 = 2026619832316723 / 2251799813685248"
  by (simp_all add: float_add_def double_three_fifths double_literals
      to_double_scaled [where j = 53] round_half_even_def)

lemma similarity_near:
  "calculate_similarity ascii_lib near_a near_b = 2026619832316723 / 2251799813685248"
proof -
  have names: "seq_ratio ascii_lib (p_normalized_name near_a) (p_normalized_name near_b) = to_double 0.6"
    using ratio_near by (simp add: near_a_def near_b_def ascii_lib_def)
  have brands: "\<exists>x y. p_brand near_a = Some x \<and> p_brand near_b = Some y \<and> x \<noteq> [] \<and> y \<noteq> []
      \<and> str_lower ascii_lib x = str_lower ascii_lib y"
    by (simp add: near_a_def near_b_def asc_def ascii_simps)
  have prices: "p_current_price near_a = None"
    by (simp add: near_a_def)
  have "calculate_similarity ascii_lib near_a near_b
          = min (float_add (float_add (to_double 0.6) (to_double 0.3)) 0) 1"
    unfolding calculate_similarity_formula names using brands prices by simp
  also have "\<dots> = 2026619832316723 / 2251799813685248"
    unfolding sum_near by simp
  finally show ?thesis .
qed

text \<open>
  C3.  The claim gives the price bonus whenever both prices are present and
  \<open>min/max > 0.7\<close>, and inserts an edge whenever the score reaches 0.7.  In the code the
  score is a sum of doubles, computed from the left and capped at 1: the ratio of the
  names, plus the double \<open>0.3\<close> when both brands are present, not empty and equal without
  case, plus the double \<open>0.1\<close> when both prices are present and not zero, the larger one is
  positive and \<open>1 - |x - y| / max x y\<close>, computed in doubles, is above the double \<open>0.7\<close>.
  Where that difference, quotient and difference are exact, the quantity tested is
  \<open>min x y / max x y\<close>.  The score lies in \<open>[0, 1]\<close> since the ratio of the names is not
  negative; two empty names have the ratio that the library gives two empty strings,
  which is 1, and then the score is 1.  For a pair of different platforms an edge is added
  exactly when the score reaches the double \<open>0.7\<close> and the table has no edge for the pair in
  either order; its type is \<open>exact\<close> from the double \<open>0.9\<close> on and \<open>similar\<close> below.
\<close>

theorem similarity_and_insertion:
  "calculate_similarity L a b =
     min (float_add
            (float_add (seq_ratio L (p_normalized_name a) (p_normalized_name b))
               (if (\<exists>x y. p_brand a = Some x \<and> p_brand b = Some y \<and> x \<noteq> [] \<and> y \<noteq> []
                       \<and> str_lower L x = str_lower L y) then to_double 0.3 else 0))
            (if (\<exists>x y. p_current_price a = Some x \<and> p_current_price b = Some y \<and> x \<noteq> 0 \<and> y \<noteq> 0
                    \<and> 0 < max x y
                    \<and> to_double 0.7 < float_sub 1 (float_div \<bar>float_sub x y\<bar> (max x y)))
             then to_double 0.1 else 0)) 1
   \<and> (0 < max u v \<and> float_sub u v = u - v
        \<and> float_div \<bar>u - v\<bar> (max u v) = \<bar>u - v\<bar> / max u v
        \<and> float_sub 1 (\<bar>u - v\<bar> / max u v) = 1 - \<bar>u - v\<bar> / max u v
        \<longrightarrow> float_sub 1 (float_div \<bar>float_sub u v\<bar> (max u v)) = min u v / max u v)
   \<and> (0 \<le> seq_ratio L (p_normalized_name a) (p_normalized_name b)
        \<longrightarrow> 0 \<le> calculate_similarity L a b \<and> calculate_similarity L a b \<le> 1)
   \<and> (p_normalized_name a = [] \<and> p_normalized_name b = [] \<and> seq_ratio L [] [] = 1
        \<longrightarrow> calculate_similarity L a b = 1)
   \<and> (p_platform_id a \<noteq> p_platform_id b \<longrightarrow>
        match_pair L a b d =
          (if to_double 0.7 \<le> calculate_similarity L a b \<and> existing_match d a b = None
           then d\<lparr> pending_matches :=
                    pending_matches d @ [new_match a b (calculate_similarity L a b)] \<rparr>
           else d))
   \<and> pm_match_type (new_match a b s) = Some (if to_double 0.9 \<le> s then ''exact'' else ''similar'')"
proof -
  have range: "0 \<le> calculate_similarity L a b \<and> calculate_similarity L a b \<le> 1"
    if "0 \<le> seq_ratio L (p_normalized_name a) (p_normalized_name b)"
    using that by (rule calculate_similarity_range)
  have empty: "calculate_similarity L a b = 1"
    if "p_normalized_name a = [] \<and> p_normalized_name b = [] \<and> seq_ratio L [] [] = 1"
    by (rule calculate_similarity_ratio_1) (use that in simp)
  have pair: "match_pair L a b d =
          (if to_double 0.7 \<le> calculate_similarity L a b \<and> existing_match d a b = None
           then d\<lparr> pending_matches :=
                    pending_matches d @ [new_match a b (calculate_similarity L a b)] \<rparr>
           else d)" if "p_platform_id a \<noteq> p_platform_id b"
    using that by (auto simp: match_pair_def Let_def split: option.splits)
  have type: "pm_match_type (new_match a b s) = Some (if to_double 0.9 \<le> s then ''exact'' else ''similar'')"
    by (simp add: new_match_def)
  show ?thesis
    using calculate_similarity_formula [of L a b] price_test_exact [of u v] range empty pair type
    by blast
qed

text \<open>
  The two phones score 1 and get an edge of type \<open>exact\<close>; their equal prices pass the test
  with \<open>min/max = 1\<close>.  Two rows with empty names score 1 as well.  The rows whose names have
  the ratio 0.6 and whose brands are equal score \<open>0.8999999999999999\<close>, which is below the
  double \<open>0.9\<close>: they get an edge of type \<open>similar\<close>.
\<close>

theorem similarity_and_insertion_witness:
  "calculate_similarity ascii_lib first_row momo_row = 1
   \<and> match_pair ascii_lib first_row momo_row shop_two
       = shop_two\<lparr> pending_matches := [new_match first_row momo_row 1] \<rparr>
   \<and> pm_match_type (new_match first_row momo_row 1) = Some ''exact''
   \<and> float_sub 1 (float_div \<bar>float_sub 100 100\<bar> (max 100 100)) = min 100 100 / max 100 (100 :: real)
   \<and> calculate_similarity ascii_lib blank_a blank_b = 1
   \<and> seq_ratio ascii_lib [] [] = 1
   \<and> seq_ratio ascii_lib (p_normalized_name near_a) (p_normalized_name near_b) = to_double 0.6
   \<and> calculate_similarity ascii_lib near_a near_b = float_add (to_double 0.6) (to_double 0.3)
   \<and> calculate_similarity ascii_lib near_a near_b = 2026619832316723 / 2251799813685248
   \<and> calculate_similarity ascii_lib near_a near_b < to_double 0.9
   \<and> match_pair ascii_lib near_a near_b shop_two
       = shop_two\<lparr> pending_matches :=
           [new_match near_a near_b (2026619832316723 / 2251799813685248)] \<rparr>
   \<and> pm_match_type (new_match near_a near_b (2026619832316723 / 2251799813685248)) = Some ''similar''"
proof -
  have names: "p_normalized_name first_row = asc ''iphone 15''" "p_normalized_name momo_row = asc ''iphone 15''"
      "p_normalized_name blank_a = []" "p_normalized_name blank_b = []"
    by (simp_all add: first_row_def momo_row_def blank_a_def blank_b_def new_product_def)
  have ratio: "seq_ratio ascii_lib (asc ''iphone 15'') (asc ''iphone 15'') = 1" "seq_ratio ascii_lib [] [] = 1"
      "seq_ratio ascii_lib (p_normalized_name near_a) (p_normalized_name near_b) = to_double 0.6"
    using ratio_iphone ratio_empty ratio_near by (simp_all add: ascii_lib_def near_a_def near_b_def)
  have platforms: "p_platform_id first_row \<noteq> p_platform_id momo_row"
      "p_platform_id near_a \<noteq> p_platform_id near_b"
    by (simp_all add: platform_rows near_a_def near_b_def)
  have no_edge: "existing_match shop_two x y = None" "pending_matches shop_two = []" for x y
    by (simp_all add: existing_match_def shop_two_def shop_db_def)
  have sim: "calculate_similarity ascii_lib first_row momo_row = 1"
    by (rule similarity_rows)
  have exact: "float_sub 100 100 = 100 - 100"
      "float_div \<bar>100 - 100\<bar> (max 100 100) = \<bar>100 - 100\<bar> / max 100 (100 :: real)"
      "float_sub 1 (\<bar>100 - 100\<bar> / max 100 100) = 1 - \<bar>100 - 100\<bar> / max 100 (100 :: real)"
    by (simp_all add: float_sub_def float_div_def to_double_0 to_double_1)
  note t1 = similarity_and_insertion [where L = ascii_lib and a = first_row and b = momo_row
      and d = shop_two and s = 1 and u = 100 and v = 100]
  note t2 = similarity_and_insertion [where L = ascii_lib and a = blank_a and b = blank_b
      and d = shop_two and s = 1 and u = 100 and v = 100]
  note t3 = similarity_and_insertion [where L = ascii_lib and a = near_a and b = near_b
      and d = shop_two and s = "2026619832316723 / 2251799813685248" and u = 100 and v = 100]
  have pair: "match_pair ascii_lib first_row momo_row shop_two
       = shop_two\<lparr> pending_matches := [new_match first_row momo_row 1] \<rparr>"
    using t1 [THEN conjunct2, THEN conjunct2, THEN conjunct2, THEN conjunct2, THEN conjunct1]
      platforms(1) no_edge sim threshold_below_1 by simp
  have type: "pm_match_type (new_match first_row momo_row 1) = Some ''exact''"
    using t1 [THEN conjunct2, THEN conjunct2, THEN conjunct2, THEN conjunct2, THEN conjunct2]
      threshold_below_1 by simp
  have price: "float_sub 1 (float_div \<bar>float_sub 100 100\<bar> (max 100 100)) = min 100 100 / max 100 (100 :: real)"
  proof -
    have pos: "(0 :: real) < max 100 100" by simp
    show ?thesis
      using t1 [THEN conjunct2, THEN conjunct1] exact pos by blast
  qed
  have blank: "calculate_similarity ascii_lib blank_a blank_b = 1"
    using t2 [THEN conjunct2, THEN conjunct2, THEN conjunct2, THEN conjunct1] names(3,4) ratio(2)
    by blast
  have range: "0 \<le> calculate_similarity ascii_lib first_row momo_row
      \<and> calculate_similarity ascii_lib first_row momo_row \<le> 1"
    using t1 [THEN conjunct2, THEN conjunct2, THEN conjunct1] names(1,2) ratio(1) by simp
  have near: "calculate_similarity ascii_lib near_a near_b = 2026619832316723 / 2251799813685248"
    by (rule similarity_near)
  have below: "(2026619832316723 / 2251799813685248 :: real) < to_double 0.9"
      "to_double 0.7 \<le> (2026619832316723 / 2251799813685248 :: real)"
    by (simp_all add: double_literals)
  have near_pair: "match_pair ascii_lib near_a near_b shop_two
       = shop_two\<lparr> pending_matches :=
           [new_match near_a near_b (2026619832316723 / 2251799813685248)] \<rparr>"
    using t3 [THEN conjunct2, THEN conjunct2, THEN conjunct2, THEN conjunct2, THEN conjunct1]
      platforms(2) no_edge near below by simp
  have near_type: "pm_match_type (new_match near_a near_b (2026619832316723 / 2251799813685248)) = Some ''similar''"
    using t3 [THEN conjunct2, THEN conjunct2, THEN conjunct2, THEN conjunct2, THEN conjunct2]
      below by simp
  show ?thesis
    using sim pair type price blank ratio(2,3) near sum_near(1) below(1) near_pair near_type
    by simp
qed

text \<open>
  The claim as stated fails twice.  With the prices \<open>-10\<close> and \<open>-5\<close> both prices are
  present and \<open>min/max = 2 > 0.7\<close>, yet the score of the two rows is 0, not 0.1.  And the
  two phones score 1, yet no edge is inserted when the table already has one for the pair.
\<close>

theorem similarity_and_insertion_counterexample:
  "calculate_similarity ascii_lib neg_a neg_b = 0
   \<and> seq_ratio ascii_lib (p_normalized_name neg_a) (p_normalized_name neg_b) = 0
   \<and> p_brand neg_a = Some [] \<and> p_brand neg_b = Some []
   \<and> p_current_price neg_a = Some (- 10) \<and> p_current_price neg_b = Some (- 5)
   \<and> (0.7 :: real) < min (- 10) (- 5) / max (- 10) (- 5)
   \<and> p_platform_id first_row \<noteq> p_platform_id momo_row
   \<and> calculate_similarity ascii_lib first_row momo_row = 1
   \<and> match_pair ascii_lib first_row momo_row shop_matched = shop_matched"
  using ratio_abc_xyz shop_matched_blocked similarity_rows(3)
  by (simp add: calculate_similarity_def neg_a_def neg_b_def first_row_def momo_row_def
      new_product_def ascii_lib_def Let_def pchome_def momo_def float_add_def to_double_0)
section \<open>A run of the pipeline with a repeated record\<close>

text \<open>A row of the table for the pair, in either direction and whatever its flags, blocks the insert.\<close>

lemma existing_edge_blocks_insert:
  assumes "m \<in> set (product_matches d)"
    and "(pm_product_a_id m = p_id product_a \<and> pm_product_b_id m = p_id product_b) \<or>
         (pm_product_a_id m = p_id product_b \<and> pm_product_b_id m = p_id product_a)"
  shows "match_pair L product_a product_b d = d"
proof -
  have "existing_match d product_a product_b \<noteq> None"
    using assms by (auto simp: existing_match_def find_None_iff)
  then show ?thesis
    by (auto simp: match_pair_def Let_def)
qed

text \<open>
  C10.  The query for an existing edge reads the match table whatever the flags of its
  rows, but not the edges that the same run has added and not flushed.  A batch that
  lists one product twice, next to its counterpart of another platform, leaves two
  products and two edges for the one pair, one in each direction.
\<close>

theorem pipeline_duplicate_edges:
  "map pair_of (product_matches (snd (process_scraper_results ascii_lib NoFault int ''run-1'' shop_db
       [rec_pchome, rec_momo, rec_pchome] (asc ''iphone'')))) = [(1, 2), (2, 1)]
   \<and> map p_id (products (snd (process_scraper_results ascii_lib NoFault int ''run-1'' shop_db
       [rec_pchome, rec_momo, rec_pchome] (asc ''iphone'')))) = [1, 2]"
proof -
  obtain session d1 where session:
      "create_scrape_session ''run-1'' (int 0) (open_session shop_db) (asc ''iphone'') run_records
         = (session, d1)"
    by (cases "create_scrape_session ''run-1'' (int 0) (open_session shop_db) (asc ''iphone'') run_records")
  have d1: "platforms d1 = [pchome, momo, yahoo]" "categories d1 = [electronics]"
      "products d1 = []" "product_matches d1 = []" "pending_matches d1 = []"
    using create_scrape_session_frame [OF session] by (simp_all add: shop_db_def)
  obtain d2 where run: "process_all ascii_lib (build_caches ''run-1'' d1) int 1 d1 run_records = ([1, 2, 1], d2)"
    and d2: "products d2 = [third_row, momo_row]" "product_matches d2 = []" "pending_matches d2 = []"
    using process_all_run [OF d1(1) d1(2) d1(3) d1(5), of "''run-1''"] d1(4) by auto
  have loaded: "load_products d2 [1, 2, 1] = [third_row, momo_row, third_row]"
    by (simp add: load_products_def d2(1) run_rows)
  have "products (snd (process_scraper_results ascii_lib NoFault int ''run-1'' shop_db run_records (asc ''iphone'')))
          = [third_row, momo_row]"
    and "product_matches (snd (process_scraper_results ascii_lib NoFault int ''run-1'' shop_db run_records (asc ''iphone'')))
          = insert_matches (int (Suc (length run_records))) []
              [new_match third_row momo_row 1, new_match momo_row third_row 1]"
    using process_scraper_results_run [OF session run] d2 loaded edges_of_run_repeated
    by simp_all
  then show ?thesis
    by (simp add: run_records_def pair_of_def new_match_def run_rows)
qed


section \<open>Claims about a failed run\<close>

text \<open>
  C9.  The claim has the session record marked \<open>failed\<close> with a message.  The handler
  rolls the transaction back and raises again: the exception reaches the caller, and the
  store is as it was when the session was opened, so the record of the run is not stored
  at all, neither as \<open>failed\<close> nor as \<open>running\<close>, and no other write of the run remains.
\<close>

theorem batch_failure_rolls_back:
  assumes "fault \<noteq> NoFault"
  shows "process_scraper_results L fault clock sid store rs query = (Inl DatabaseError, open_session store)
       \<and> scrape_sessions (snd (process_scraper_results L fault clock sid store rs query))
           = scrape_sessions store
       \<and> products (snd (process_scraper_results L fault clock sid store rs query)) = products store
       \<and> price_histories (snd (process_scraper_results L fault clock sid store rs query))
           = price_histories store
       \<and> product_matches (snd (process_scraper_results L fault clock sid store rs query))
           = product_matches store"
proof -
  have "process_scraper_results L fault clock sid store rs query = (Inl DatabaseError, open_session store)"
    using assms
    by (cases fault) (simp_all add: process_scraper_results_def Let_def split: prod.splits)
  then show ?thesis
    by (simp add: open_session_def)
qed

lemma run_session_created:
  "ss_status (fst (create_scrape_session ''run-1'' 0 (open_session shop_db) (asc ''iphone'') run_records))
     = Some ''running''"
  by (simp add: create_scrape_session_def Let_def)

text \<open>A run on the example store whose commit fails.\<close>

theorem batch_failure_witness:
  "process_scraper_results ascii_lib FaultCommit int ''run-1'' shop_db run_records (asc ''iphone'')
     = (Inl DatabaseError, shop_db)
   \<and> scrape_sessions shop_db = []
   \<and> ss_status (fst (create_scrape_session ''run-1'' 0 (open_session shop_db) (asc ''iphone'') run_records))
       = Some ''running''"
proof -
  have fault: "FaultCommit \<noteq> NoFault"
    by simp
  have "open_session shop_db = shop_db" "scrape_sessions shop_db = []"
    by (simp_all add: open_session_def shop_db_def)
  then show ?thesis
    using batch_failure_rolls_back [OF fault, of ascii_lib int "''run-1''" shop_db run_records "asc ''iphone''"]
      run_session_created
    by simp
qed

text \<open>
  The claim as stated fails: the run raises after its session was created with status
  \<open>running\<close>, and afterwards the store has no session at all, so none marked \<open>failed\<close>.
\<close>

theorem batch_failure_counterexample:
  "fst (process_scraper_results ascii_lib FaultCommit int ''run-1'' shop_db run_records (asc ''iphone''))
     = Inl DatabaseError
   \<and> ss_status (fst (create_scrape_session ''run-1'' 0 (open_session shop_db) (asc ''iphone'') run_records))
       = Some ''running''
   \<and> scrape_sessions (snd (process_scraper_results ascii_lib FaultCommit int ''run-1'' shop_db
        run_records (asc ''iphone''))) = []
   \<and> \<not> list_ex (\<lambda>s. ss_status s = Some ''failed'')
        (scrape_sessions (snd (process_scraper_results ascii_lib FaultCommit int ''run-1'' shop_db
           run_records (asc ''iphone''))))"
proof -
  have "process_scraper_results ascii_lib FaultCommit int ''run-1'' shop_db run_records (asc ''iphone'')
          = (Inl DatabaseError, open_session shop_db)"
    by (simp add: process_scraper_results_def Let_def split: prod.splits)
  then show ?thesis
    using run_session_created by (simp add: open_session_def shop_db_def)
qed

section \<open>Claims about duplicates in a batch\<close>

lemma validate_products_from_accepted:
  "fst (validate_products_from L i rs)
     = List.map_filter (\<lambda>r. case ProductSchema L r of Inr v \<Rightarrow> Some v | Inl e \<Rightarrow> None) rs"
proof (induction rs arbitrary: i)
  case Nil
  show ?case by (simp add: List.map_filter_simps)
next
  case (Cons r rs)
  obtain vs errs where rest: "validate_products_from L (Suc i) rs = (vs, errs)"
    by (cases "validate_products_from L (Suc i) rs")
  have vs: "vs = List.map_filter (\<lambda>r. case ProductSchema L r of Inr v \<Rightarrow> Some v | Inl e \<Rightarrow> None) rs"
    using Cons.IH [of "Suc i"] rest by simp
  show ?case
    using rest vs by (cases "ProductSchema L r") (simp_all add: List.map_filter_simps)
qed

lemma check_duplicates_None:
  "check_duplicates seen v = None \<longleftrightarrow>
     distinct (map product_key v) \<and> set (map product_key v) \<inter> set seen = {}"
  by (induction v arbitrary: seen) (auto simp: product_key_def Let_def)

text \<open>
  C5.  The claim drops the later of two records with one key and accepts the first.  The
  loader validates every record on its own: the accepted records are those that the schema
  accepts, whatever their keys.  The bulk schema returns a list as it is when the list is
  not empty and its keys are distinct, and refuses the whole list otherwise.
\<close>

theorem duplicates_in_batch:
  "fst (validate_products L rs)
     = List.map_filter (\<lambda>r. case ProductSchema L r of Inr v \<Rightarrow> Some v | Inl e \<Rightarrow> None) rs
   \<and> (validate_product_list v = Inr v \<longleftrightarrow> v \<noteq> [] \<and> distinct (map product_key v))
   \<and> ((\<exists>e. validate_product_list v = Inl e) \<longleftrightarrow> v = [] \<or> \<not> distinct (map product_key v))"
proof -
  have accepted: "fst (validate_products L rs)
     = List.map_filter (\<lambda>r. case ProductSchema L r of Inr v \<Rightarrow> Some v | Inl e \<Rightarrow> None) rs"
    by (simp add: validate_products_def validate_products_from_accepted)
  have dup: "check_duplicates [] v = None \<longleftrightarrow> distinct (map product_key v)"
    using check_duplicates_None [of "[]" v] by simp
  have ok: "validate_product_list v = Inr v \<longleftrightarrow> v \<noteq> [] \<and> distinct (map product_key v)"
    using dup by (auto simp: validate_product_list_def split: option.splits)
  have bad: "(\<exists>e. validate_product_list v = Inl e) \<longleftrightarrow> v = [] \<or> \<not> distinct (map product_key v)"
    using dup by (auto simp: validate_product_list_def split: option.splits)
  show ?thesis
    using accepted ok bad by blast
qed

lemma schema_first: "ProductSchema ascii_lib rec_dup_first = Inr valid_first"
  by (simp add: ProductSchema_def rec_dup_first_def rec_dup_second_def rec_pchome_later_def
      rec_pchome_def empty_record_def valid_first_def valid_second_def
      validate_platform_def allowed_platforms_def validate_product_id_def validate_name_def
      clean_product_name_def join_split_def strip_def collapse_ws_def spam_characters_def
      validate_price_def validate_price_range_def validate_original_price_def
      validate_url_def url_tail_def validate_brand_def validate_description_def
      err_of_def dict_get_def asc_def ascii_simps prefix_code Let_def)

lemma schema_second: "ProductSchema ascii_lib rec_dup_second = Inr valid_second"
  by (simp add: ProductSchema_def rec_dup_first_def rec_dup_second_def rec_pchome_later_def
      rec_pchome_def empty_record_def valid_first_def valid_second_def
      validate_platform_def allowed_platforms_def validate_product_id_def validate_name_def
      clean_product_name_def join_split_def strip_def collapse_ws_def spam_characters_def
      validate_price_def validate_price_range_def validate_original_price_def
      validate_url_def url_tail_def validate_brand_def validate_description_def
      err_of_def dict_get_def asc_def ascii_simps prefix_code Let_def)

lemma same_keys: "product_key valid_second = product_key valid_first"
  by (simp add: product_key_def valid_second_def)

text \<open>
  Two valid records with one key: the loader accepts both, the bulk schema accepts the
  first alone and refuses the two together.
\<close>

theorem duplicates_in_batch_witness:
  "fst (validate_products ascii_lib [rec_dup_first, rec_dup_second]) = [valid_first, valid_second]
   \<and> product_key valid_second = product_key valid_first
   \<and> validate_product_list [valid_first] = Inr [valid_first]
   \<and> (\<exists>e. validate_product_list [valid_first, valid_second] = Inl e)"
proof -
  note t1 = duplicates_in_batch [of ascii_lib "[rec_dup_first, rec_dup_second]" "[valid_first]"]
  note t2 = duplicates_in_batch [of ascii_lib "[rec_dup_first, rec_dup_second]" "[valid_first, valid_second]"]
  have accepted: "fst (validate_products ascii_lib [rec_dup_first, rec_dup_second]) = [valid_first, valid_second]"
    using t1 by (simp add: schema_first schema_second List.map_filter_simps)
  have single: "validate_product_list [valid_first] = Inr [valid_first]"
    using t1 by simp
  have both: "\<exists>e. validate_product_list [valid_first, valid_second] = Inl e"
    using t2 same_keys by simp
  show ?thesis
    using accepted same_keys single both by simp
qed

text \<open>
  The claim as stated fails: the loader accepts the later record too and records no
  rejection, and the bulk schema refuses the list, the first record with it.
\<close>

theorem duplicates_in_batch_counterexample:
  "validate_products ascii_lib [rec_dup_first, rec_dup_second] = ([valid_first, valid_second], [])
   \<and> rp_platform rec_dup_second = rp_platform rec_dup_first
   \<and> rp_product_id rec_dup_second = rp_product_id rec_dup_first
   \<and> validate_product_list [valid_first, valid_second]
       = Inl (DuplicateProduct (asc ''pchome'') (asc ''A1''))"
proof -
  have keys: "rp_platform rec_dup_second = rp_platform rec_dup_first"
      "rp_product_id rec_dup_second = rp_product_id rec_dup_first"
    by (simp_all add: rec_dup_first_def rec_dup_second_def)
  have accepted: "validate_products ascii_lib [rec_dup_first, rec_dup_second]
      = ([valid_first, valid_second], [])"
    by (simp add: validate_products_def schema_first schema_second)
  have refused: "validate_product_list [valid_first, valid_second]
      = Inl (DuplicateProduct (asc ''pchome'') (asc ''A1''))"
    by (simp add: validate_product_list_def valid_first_def valid_second_def)
  show ?thesis
    using keys accepted refused by simp
qed

end
